theory Spec2Isabelle
  imports Complex_Main "HOL-Library.AList" "HOL-Library.Multiset"
begin

section \<open>JavaScript numbers\<close>

text \<open>
  Every quantity of the contracts is a JavaScript \<open>number\<close>. The model keeps the three
  non-finite values of IEEE-754 and takes the finite ones as exact reals: rounding,
  overflow of a finite result to an infinity and the sign of zero are not modelled
  (a zero divisor counts as \<open>+0\<close>). No operation on numbers throws in JavaScript, so
  none of the functions below has an error case.
\<close>

datatype jsnum = is_Num: Num (the_Num: real) | PInf | NInf | NaN

fun jneg :: "jsnum \<Rightarrow> jsnum" where
  "jneg (Num a) = Num (- a)"
| "jneg PInf = NInf"
| "jneg NInf = PInf"
| "jneg NaN = NaN"

fun jadd :: "jsnum \<Rightarrow> jsnum \<Rightarrow> jsnum" where
  "jadd (Num a) (Num b) = Num (a + b)"
| "jadd NaN y = NaN"
| "jadd x NaN = NaN"
| "jadd PInf NInf = NaN"
| "jadd NInf PInf = NaN"
| "jadd PInf y = PInf"
| "jadd x PInf = PInf"
| "jadd NInf y = NInf"
| "jadd x NInf = NInf"

definition jsub :: "jsnum \<Rightarrow> jsnum \<Rightarrow> jsnum" where
  "jsub x y = jadd x (jneg y)"

text \<open>The sign of a non-zero factor decides the sign of an infinite product.\<close>

fun jsign_inf :: "bool \<Rightarrow> jsnum" where
  "jsign_inf True = PInf"
| "jsign_inf False = NInf"

fun jmul :: "jsnum \<Rightarrow> jsnum \<Rightarrow> jsnum" where
  "jmul (Num a) (Num b) = Num (a * b)"
| "jmul NaN y = NaN"
| "jmul x NaN = NaN"
| "jmul PInf PInf = PInf"
| "jmul PInf NInf = NInf"
| "jmul NInf PInf = NInf"
| "jmul NInf NInf = PInf"
| "jmul PInf (Num b) = (if b = 0 then NaN else jsign_inf (0 < b))"
| "jmul NInf (Num b) = (if b = 0 then NaN else jsign_inf (b < 0))"
| "jmul (Num a) PInf = (if a = 0 then NaN else jsign_inf (0 < a))"
| "jmul (Num a) NInf = (if a = 0 then NaN else jsign_inf (a < 0))"

fun jdiv :: "jsnum \<Rightarrow> jsnum \<Rightarrow> jsnum" where
  "jdiv (Num a) (Num b) =
     (if b \<noteq> 0 then Num (a / b) else if a = 0 then NaN else jsign_inf (0 < a))"
| "jdiv NaN y = NaN"
| "jdiv x NaN = NaN"
| "jdiv (Num a) PInf = Num 0"
| "jdiv (Num a) NInf = Num 0"
| "jdiv PInf (Num b) = jsign_inf (0 \<le> b)"
| "jdiv NInf (Num b) = jsign_inf (b < 0)"
| "jdiv PInf y = NaN"
| "jdiv NInf y = NaN"

text \<open>\<open>x < y\<close>, \<open>x > y\<close> and \<open>x <= y\<close>: every comparison with \<open>NaN\<close> is false.\<close>

fun jlt :: "jsnum \<Rightarrow> jsnum \<Rightarrow> bool" where
  "jlt (Num a) (Num b) = (a < b)"
| "jlt NaN y = False"
| "jlt x NaN = False"
| "jlt PInf y = False"
| "jlt x NInf = False"
| "jlt x PInf = True"
| "jlt NInf y = True"

definition jgt :: "jsnum \<Rightarrow> jsnum \<Rightarrow> bool" where
  "jgt x y = jlt y x"

definition jle :: "jsnum \<Rightarrow> jsnum \<Rightarrow> bool" where
  "jle x y = (x \<noteq> NaN \<and> y \<noteq> NaN \<and> \<not> jlt y x)"

text \<open>\<open>Math.abs\<close>, \<open>Math.sqrt\<close> and \<open>Math.min\<close>.\<close>

fun jabs :: "jsnum \<Rightarrow> jsnum" where
  "jabs (Num a) = Num \<bar>a\<bar>"
| "jabs PInf = PInf"
| "jabs NInf = PInf"
| "jabs NaN = NaN"

fun jsqrt :: "jsnum \<Rightarrow> jsnum" where
  "jsqrt (Num a) = (if a < 0 then NaN else Num (sqrt a))"
| "jsqrt PInf = PInf"
| "jsqrt NInf = NaN"
| "jsqrt NaN = NaN"

fun jmin :: "jsnum \<Rightarrow> jsnum \<Rightarrow> jsnum" where
  "jmin NaN y = NaN"
| "jmin x NaN = NaN"
| "jmin x y = (if jlt y x then y else x)"

section \<open>Errors and the ledger\<close>

text \<open>
  A transaction either throws, and then nothing it wrote is committed, or returns its
  value together with the ledger it leaves. \<open>SyntaxError\<close> is what \<open>JSON.parse\<close>
  throws on the empty text that \<open>getState\<close> yields for a key that was never written;
  \<open>InvokeRejected\<close> is a rejected \<open>invokeChaincode\<close> promise; the other errors are
  the \<open>throw new Error(...)\<close> statements of the contracts.
\<close>

datatype error =
    SyntaxError
  | InvokeRejected
  | PriceRatioMismatch
  | FetchProvidersFailed
  | FetchPriceFailed string
  | InsufficientLPTokens
  | InvalidTokenIdentifier
  | ProviderMissing string
  | UnsupportedCBDC
  | TransferFromUserFailed
  | TransferToUserFailed
  | FetchPricesFailed string
  | InvalidPercentage

record Reserve =
  tokenA :: jsnum
  tokenB :: jsnum

record UserContribution =
  userId :: string
  contributionA :: jsnum
  contributionB :: jsnum
  lpTokens :: jsnum

record LiquidityProvider =
  user :: string
  amount :: jsnum
  earnedFees :: jsnum

record Basket =
  docType :: "string option"
  ID :: string
  TokenAmount :: jsnum
  Tokens :: "string list"
  Reserves :: "jsnum list"
  Buffers :: "jsnum list"
  Weights :: "jsnum list"
  Prices :: "jsnum list"

text \<open>
  A JSON text stored under a user's contribution key parses to an object or to a falsy
  value (\<open>null\<close>, \<open>false\<close>, \<open>0\<close>, \<open>""\<close>): the contract tests \<open>!userContribution\<close>.
\<close>

datatype 'a json = Falsy | Obj 'a

text \<open>
  The ledger: the pool's key \<open>ReserveWallet\<close>, its keys \<open>UserContribution:\<close> followed
  by a user, the keys of LiquidityProviderContract, one per provider, in key order, and
  the baskets under their keys. The reserve and the baskets are only ever written as
  objects, so a stored value of theirs parses to a record. No transaction below reads a
  key after it has written it, except \<open>distributeFees\<close> on a ledger where two keys hold
  a provider of the same name.
\<close>

record ledger =
  reserve_wallet :: "Reserve option"
  user_contribution :: "string \<Rightarrow> UserContribution json option"
  providers :: "(string \<times> LiquidityProvider) list"
  baskets :: "string \<Rightarrow> Basket option"

text \<open>
  \<open>await\<close> continues with the value of a call that returned and passes a thrown error
  on. \<open>JSON_parse\<close> is \<open>JSON.parse(buffer.toString())\<close> on what \<open>getState\<close> gives.
\<close>

definition await :: "error + 'a \<Rightarrow> ('a \<Rightarrow> error + 'b) \<Rightarrow> error + 'b" where
  "await m f = (case m of Inl err \<Rightarrow> Inl err | Inr v \<Rightarrow> f v)"

definition resolved :: "'a option \<Rightarrow> error + 'a" where
  "resolved r = (case r of None \<Rightarrow> Inl InvokeRejected | Some v \<Rightarrow> Inr v)"

definition JSON_parse :: "'a option \<Rightarrow> error + 'a" where
  "JSON_parse b = (case b of None \<Rightarrow> Inl SyntaxError | Some v \<Rightarrow> Inr v)"

section \<open>Other chaincodes\<close>

text \<open>
  The token chaincodes and the oracle are not part of the contracts modelled here; the
  environment says how each invocation ends. \<open>None\<close> is a rejected promise, which the
  caller does not catch; otherwise the response carries a status, and for the oracle
  the payload as \<open>parseFloat\<close> reads it.
\<close>

record call =
  chaincode :: string
  fn :: string
  sender :: string
  receiver :: string
  quantity :: jsnum

record env =
  tokenAContract :: string
  tokenBContract :: string
  invoke_token :: "call \<Rightarrow> nat option"
  invoke_oracle :: "string \<Rightarrow> string \<Rightarrow> string \<Rightarrow> (nat \<times> jsnum) option"

definition RESERVE_WALLET_KEY :: string where
  "RESERVE_WALLET_KEY = ''ReserveWallet''"

definition oracleContractName :: string where
  "oracleContractName = ''OracleContract''"

section \<open>LiquidityProviderContract\<close>

text \<open>
  Its ledger holds one \<open>LiquidityProvider\<close> per key. A transaction that returns is
  seen by an invoking chaincode as a response of status 200.
\<close>

definition UpdateEarnedFees ::
  "(string \<times> LiquidityProvider) list \<Rightarrow> string \<Rightarrow> jsnum \<Rightarrow>
   error + (string \<times> LiquidityProvider) list" where
  "UpdateEarnedFees L u fee =
     (case map_of L u of
        None \<Rightarrow> Inl (ProviderMissing u)
      | Some provider \<Rightarrow>
          Inr (AList.update u (provider\<lparr>earnedFees := jadd (earnedFees provider) fee\<rparr>) L))"

definition GetLiquidityProvider ::
  "(string \<times> LiquidityProvider) list \<Rightarrow> string \<Rightarrow> error + LiquidityProvider" where
  "GetLiquidityProvider L u =
     (case map_of L u of None \<Rightarrow> Inl (ProviderMissing u) | Some provider \<Rightarrow> Inr provider)"

definition GetAllLiquidityProviders ::
  "(string \<times> LiquidityProvider) list \<Rightarrow> error + LiquidityProvider list" where
  "GetAllLiquidityProviders L = Inr (map snd L)"

definition invokeChaincode :: "error + 'a \<Rightarrow> error + (nat \<times> 'a)" where
  "invokeChaincode r = await r (\<lambda>v. Inr (200, v))"

section \<open>LiquidityPool\<close>

text \<open>\<open>putState\<close> on the pool's two kinds of key.\<close>

definition putReserve :: "ledger \<Rightarrow> Reserve \<Rightarrow> ledger" where
  "putReserve s r = s\<lparr>reserve_wallet := Some r\<rparr>"

definition putContribution :: "ledger \<Rightarrow> string \<Rightarrow> UserContribution \<Rightarrow> ledger" where
  "putContribution s u c = s\<lparr>user_contribution := (user_contribution s)(u := Some (Obj c))\<rparr>"

definition FEE_RATE :: jsnum where
  "FEE_RATE = Num (3 / 1000)"

definition Init :: "ledger \<Rightarrow> error + (unit \<times> ledger)" where
  "Init s = Inr ((), putReserve s \<lparr>tokenA = Num 0, tokenB = Num 0\<rparr>)"

definition getPriceFromOracle :: "env \<Rightarrow> string \<Rightarrow> error + jsnum" where
  "getPriceFromOracle e token =
     await (resolved (invoke_oracle e oracleContractName ''GetCurrencyPrice'' token))
       (\<lambda>priceResponse.
          if fst priceResponse \<noteq> 200 then Inl (FetchPriceFailed token)
          else Inr (snd priceResponse))"

definition transfer :: "string \<Rightarrow> string \<Rightarrow> string \<Rightarrow> jsnum \<Rightarrow> call" where
  "transfer c a b q = \<lparr>chaincode = c, fn = ''transfer'', sender = a, receiver = b, quantity = q\<rparr>"

definition lpTokensToMint :: "Reserve \<Rightarrow> jsnum \<Rightarrow> jsnum \<Rightarrow> jsnum" where
  "lpTokensToMint totalReserve amountA amountB =
     (if tokenA totalReserve = Num 0 \<or> tokenB totalReserve = Num 0
      then jsqrt (jmul amountA amountB)
      else jmin (jdiv amountA (tokenA totalReserve)) (jdiv amountB (tokenB totalReserve)))"

definition AddLiquidity ::
  "env \<Rightarrow> ledger \<Rightarrow> string \<Rightarrow> jsnum \<Rightarrow> jsnum \<Rightarrow> error + (bool \<times> ledger \<times> call list)" where
  "AddLiquidity e s u amountA amountB =
     await (getPriceFromOracle e ''tokenA'') (\<lambda>priceA.
     await (getPriceFromOracle e ''tokenB'') (\<lambda>priceB.
     if jgt (jabs (jsub (jmul amountA priceA) (jmul amountB priceB))) (Num (1 / 100))
     then Inl PriceRatioMismatch
     else
     let callA = transfer (tokenAContract e) u RESERVE_WALLET_KEY amountA;
         callB = transfer (tokenBContract e) u RESERVE_WALLET_KEY amountB
     in
     if invoke_token e callA = None then Inl InvokeRejected
     else if invoke_token e callB = None then Inl InvokeRejected
     else
     await (JSON_parse (reserve_wallet s)) (\<lambda>totalReserve.
     let minted = lpTokensToMint totalReserve amountA amountB;
         s' = putReserve s \<lparr>tokenA = jadd (tokenA totalReserve) amountA,
                            tokenB = jadd (tokenB totalReserve) amountB\<rparr>
     in
     await (JSON_parse (user_contribution s u)) (\<lambda>parsed.
     case parsed of
       Falsy \<Rightarrow>
         Inr (True,
              putContribution s' u
                \<lparr>userId = u, contributionA = amountA, contributionB = amountB,
                 lpTokens = minted\<rparr>,
              [callA, callB])
     | Obj userContribution \<Rightarrow>
         Inr (True,
              putContribution s' u
                (userContribution
                   \<lparr>contributionA := jadd (contributionA userContribution) amountA,
                    contributionB := jadd (contributionB userContribution) amountB,
                    lpTokens := jadd (lpTokens userContribution) minted\<rparr>),
              [callA, callB])))))"

text \<open>The two loops of \<open>distributeFees\<close>: the sum of the amounts, then one update per provider.\<close>

fun totalLiquidity :: "LiquidityProvider list \<Rightarrow> jsnum \<Rightarrow> jsnum" where
  "totalLiquidity [] t = t"
| "totalLiquidity (provider # ps) t = totalLiquidity ps (jadd t (amount provider))"

fun distribute_loop ::
  "jsnum \<Rightarrow> jsnum \<Rightarrow> LiquidityProvider list \<Rightarrow> (string \<times> LiquidityProvider) list \<Rightarrow>
   error + (string \<times> LiquidityProvider) list" where
  "distribute_loop fee t [] L = Inr L"
| "distribute_loop fee t (provider # ps) L =
     await (invokeChaincode
              (UpdateEarnedFees L (user provider) (jmul (jdiv (amount provider) t) fee)))
       (\<lambda>response. distribute_loop fee t ps (snd response))"

definition distributeFees ::
  "(string \<times> LiquidityProvider) list \<Rightarrow> jsnum \<Rightarrow> error + (string \<times> LiquidityProvider) list" where
  "distributeFees L fee =
     await (invokeChaincode (GetAllLiquidityProviders L)) (\<lambda>response.
     if fst response \<noteq> 200 then Inl FetchProvidersFailed
     else distribute_loop fee (totalLiquidity (snd response) (Num 0)) (snd response) L)"

text \<open>
  \<open>Swap\<close> takes every input token other than \<open>tokenA\<close> as token B. \<open>raw_swap\<close> is its
  first \<open>if\<close>: the reserve after the trade and the output before the fee.
\<close>

definition raw_swap :: "Reserve \<Rightarrow> string \<Rightarrow> jsnum \<Rightarrow> Reserve \<times> jsnum" where
  "raw_swap reserve inputToken amountIn =
     (let invariant = jmul (tokenA reserve) (tokenB reserve) in
      if inputToken = ''tokenA''
      then (let a' = jadd (tokenA reserve) amountIn;
                amountOut = jsub (tokenB reserve) (jdiv invariant a')
            in (\<lparr>tokenA = a', tokenB = jsub (tokenB reserve) amountOut\<rparr>, amountOut))
      else (let b' = jadd (tokenB reserve) amountIn;
                amountOut = jsub (tokenA reserve) (jdiv invariant b')
            in (\<lparr>tokenA = jsub (tokenA reserve) amountOut, tokenB = b'\<rparr>, amountOut)))"

definition swap_transfers :: "env \<Rightarrow> string \<Rightarrow> string \<Rightarrow> jsnum \<Rightarrow> jsnum \<Rightarrow> call \<times> call" where
  "swap_transfers e u inputToken amountIn amountOut =
     (if inputToken = ''tokenA''
      then (transfer (tokenAContract e) u RESERVE_WALLET_KEY amountIn,
            transfer (tokenBContract e) RESERVE_WALLET_KEY u amountOut)
      else (transfer (tokenBContract e) u RESERVE_WALLET_KEY amountIn,
            transfer (tokenAContract e) RESERVE_WALLET_KEY u amountOut))"

definition Swap ::
  "env \<Rightarrow> ledger \<Rightarrow> string \<Rightarrow> string \<Rightarrow> jsnum \<Rightarrow> error + (jsnum \<times> ledger \<times> call list)" where
  "Swap e s u inputToken amountIn =
     await (JSON_parse (reserve_wallet s)) (\<lambda>reserve.
     let reserve' = fst (raw_swap reserve inputToken amountIn);
         rawOut = snd (raw_swap reserve inputToken amountIn);
         fee = jmul rawOut FEE_RATE;
         amountOut = jsub rawOut fee
     in
     await (distributeFees (providers s) fee) (\<lambda>L'.
     let callIn = fst (swap_transfers e u inputToken amountIn amountOut);
         callOut = snd (swap_transfers e u inputToken amountIn amountOut)
     in
     if invoke_token e callIn = None then Inl InvokeRejected
     else if invoke_token e callOut = None then Inl InvokeRejected
     else Inr (amountOut, putReserve (s\<lparr>providers := L'\<rparr>) reserve', [callIn, callOut])))"

definition RemoveLiquidity ::
  "env \<Rightarrow> ledger \<Rightarrow> string \<Rightarrow> jsnum \<Rightarrow> error + (bool \<times> ledger \<times> call list)" where
  "RemoveLiquidity e s u lpAmount =
     await (JSON_parse (reserve_wallet s)) (\<lambda>totalReserve.
     await (JSON_parse (user_contribution s u)) (\<lambda>parsed.
     case parsed of
       Falsy \<Rightarrow> Inl InsufficientLPTokens
     | Obj userContribution \<Rightarrow>
         if jlt (lpTokens userContribution) lpAmount then Inl InsufficientLPTokens
         else
         let proportion = jdiv lpAmount (lpTokens userContribution);
             amountA = jmul (contributionA userContribution) proportion;
             amountB = jmul (contributionB userContribution) proportion;
             feeA = jmul amountA (Num (3 / 1000));
             feeB = jmul amountB (Num (3 / 1000));
             callA = transfer (tokenAContract e) RESERVE_WALLET_KEY u (jsub amountA feeA);
             callB = transfer (tokenBContract e) RESERVE_WALLET_KEY u (jsub amountB feeB)
         in
         if invoke_token e callA = None then Inl InvokeRejected
         else if invoke_token e callB = None then Inl InvokeRejected
         else
         Inr (True,
              putContribution
                (putReserve s \<lparr>tokenA = jsub (tokenA totalReserve) amountA,
                               tokenB = jsub (tokenB totalReserve) amountB\<rparr>) u
                (userContribution
                   \<lparr>lpTokens := jsub (lpTokens userContribution) lpAmount,
                    contributionA := jsub (contributionA userContribution) amountA,
                    contributionB := jsub (contributionB userContribution) amountB\<rparr>),
              [callA, callB])))"

definition GetReserve :: "ledger \<Rightarrow> string \<Rightarrow> error + jsnum" where
  "GetReserve s token =
     await (JSON_parse (reserve_wallet s)) (\<lambda>reserve.
     if token = ''tokenA'' then Inr (tokenA reserve)
     else if token = ''tokenB'' then Inr (tokenB reserve)
     else Inl InvalidTokenIdentifier)"

section \<open>BasketContract\<close>

text \<open>
  \<open>indexOf\<close> gives \<open>None\<close> for JavaScript's \<open>-1\<close>. The lists of a basket need not
  have one length: reading past the end of an array gives \<open>undefined\<close>, which every
  arithmetic operation turns into \<open>NaN\<close>, and writing past the end extends the array
  with holes that read as \<open>undefined\<close>.
\<close>

fun indexOf :: "string list \<Rightarrow> string \<Rightarrow> nat option" where
  "indexOf [] x = None"
| "indexOf (y # ys) x = (if y = x then Some 0 else map_option Suc (indexOf ys x))"

definition js_get :: "jsnum list \<Rightarrow> nat \<Rightarrow> jsnum" where
  "js_get xs i = (if i < length xs then xs ! i else NaN)"

definition js_set :: "jsnum list \<Rightarrow> nat \<Rightarrow> jsnum \<Rightarrow> jsnum list" where
  "js_set xs i v =
     (if i < length xs then xs[i := v] else xs @ replicate (i - length xs) NaN @ [v])"

definition reserveWallet :: string where
  "reserveWallet = ''reserveWallet''"

definition Transfer :: "string \<Rightarrow> string \<Rightarrow> string \<Rightarrow> jsnum \<Rightarrow> call" where
  "Transfer c a b q = \<lparr>chaincode = c, fn = ''Transfer'', sender = a, receiver = b, quantity = q\<rparr>"

text \<open>
  The invariant of \<open>SwapCBDCs\<close>: the inner loop over \<open>j\<close> multiplies the running value,
  the outer loop over \<open>i\<close> adds the reserve first. Both run over the indices
  \<open>0, ..., Reserves.length - 1\<close>.
\<close>

fun invariant_inner :: "jsnum list \<Rightarrow> nat \<Rightarrow> nat list \<Rightarrow> jsnum \<Rightarrow> jsnum" where
  "invariant_inner R i [] D = D"
| "invariant_inner R i (j # js) D =
     invariant_inner R i js
       (if i \<noteq> j then jmul D (jadd (Num 1) (jdiv (R ! i) (R ! j))) else D)"

fun invariant_outer :: "jsnum list \<Rightarrow> nat list \<Rightarrow> jsnum \<Rightarrow> jsnum" where
  "invariant_outer R [] D = D"
| "invariant_outer R (i # is) D =
     invariant_outer R is (invariant_inner R i [0..<length R] (jadd D (R ! i)))"

definition invariant :: "jsnum list \<Rightarrow> jsnum" where
  "invariant R = invariant_outer R [0..<length R] (Num 0)"

definition InitBasket :: "ledger \<Rightarrow> Basket \<Rightarrow> error + (unit \<times> ledger)" where
  "InitBasket s basket = Inr ((), s\<lparr>baskets := (baskets s)(ID basket := Some basket)\<rparr>)"

text \<open>
  \<open>SwapCBDCs\<close> returns a sentence holding the amount, the two tokens and \<open>toAmount\<close>;
  the model returns the four of them.
\<close>

definition SwapCBDCs ::
  "env \<Rightarrow> ledger \<Rightarrow> jsnum \<Rightarrow> string \<Rightarrow> string \<Rightarrow> string \<Rightarrow>
   error + ((jsnum \<times> string \<times> jsnum \<times> string) \<times> ledger \<times> call list)" where
  "SwapCBDCs e s amt fromCBDC toCBDC u =
     await (JSON_parse (baskets s ''basket1'')) (\<lambda>basket.
     case (indexOf (Tokens basket) fromCBDC, indexOf (Tokens basket) toCBDC) of
       (Some fromIndex, Some toIndex) \<Rightarrow>
         let D_before = invariant (Reserves basket);
             R1 = js_set (Reserves basket) fromIndex
                    (jsub (js_get (Reserves basket) fromIndex) amt);
             D_after = invariant R1;
             toAmount = jsub D_before D_after;
             R2 = js_set R1 toIndex (jadd (js_get R1 toIndex) toAmount);
             callFrom = Transfer ''alpha'' u reserveWallet amt;
             callTo = Transfer ''alpha'' reserveWallet u toAmount
         in
         await (resolved (invoke_token e callFrom)) (\<lambda>fromCBDCDecrease.
         if fromCBDCDecrease \<noteq> 200 then Inl TransferFromUserFailed
         else
         await (resolved (invoke_token e callTo)) (\<lambda>toCBDCIncrease.
         if toCBDCIncrease \<noteq> 200 then Inl TransferToUserFailed
         else
         Inr ((amt, fromCBDC, toAmount, toCBDC),
              s\<lparr>baskets := (baskets s)(''basket1'' := Some (basket\<lparr>Reserves := R2\<rparr>))\<rparr>,
              [callFrom, callTo])))
     | _ \<Rightarrow> Inl UnsupportedCBDC)"

text \<open>
  The basket's \<open>RemoveLiquidity\<close> pays the caller's earned fees and resets them; it
  writes the basket back as it read it.
\<close>

definition Basket_RemoveLiquidity ::
  "env \<Rightarrow> ledger \<Rightarrow> jsnum \<Rightarrow> string \<Rightarrow> error + (unit \<times> ledger \<times> call list)" where
  "Basket_RemoveLiquidity e s percentage u =
     (if jle percentage (Num 0) \<or> jgt percentage (Num 100) then Inl InvalidPercentage
      else
      await (JSON_parse (baskets s ''basket1'')) (\<lambda>basket.
      await (invokeChaincode (GetLiquidityProvider (providers s) u)) (\<lambda>providerData.
      let provider = snd providerData;
          callFees = Transfer ''alpha'' reserveWallet u (earnedFees provider)
      in
      await (resolved (invoke_token e callFees)) (\<lambda>paid.
      await (invokeChaincode (UpdateEarnedFees (providers s) u (jneg (earnedFees provider))))
        (\<lambda>response.
           Inr ((), s\<lparr>providers := snd response,
                       baskets := (baskets s)(''basket1'' := Some basket)\<rparr>,
                [callFees]))))))"

section \<open>RiskManagementContract\<close>

text \<open>
  The repository holds two versions of \<open>CheckAssetVolatility\<close>. The first is a
  placeholder that takes no threshold and reads nothing.
\<close>

definition CheckAssetVolatility_placeholder :: "env \<Rightarrow> ledger \<Rightarrow> error + bool" where
  "CheckAssetVolatility_placeholder e s = Inr True"

text \<open>The second asks the oracle, asset after asset, and stops at the first volatile one.\<close>

fun volatility_loop :: "env \<Rightarrow> string \<Rightarrow> jsnum \<Rightarrow> string list \<Rightarrow> error + bool" where
  "volatility_loop e oc thr [] = Inr True"
| "volatility_loop e oc thr (t # ts) =
     await (resolved (invoke_oracle e oc ''GetCurrencyPrice'' t)) (\<lambda>currentPriceResponse.
     await (resolved (invoke_oracle e oc ''GetPreviousCurrencyPrice'' t))
       (\<lambda>previousPriceResponse.
     if fst currentPriceResponse \<noteq> 200 \<or> fst previousPriceResponse \<noteq> 200
     then Inl (FetchPricesFailed t)
     else
     let currentPrice = snd currentPriceResponse;
         previousPrice = snd previousPriceResponse;
         change = jabs (jdiv (jsub currentPrice previousPrice) previousPrice)
     in if jgt change thr then Inr False else volatility_loop e oc thr ts))"

definition CheckAssetVolatility :: "env \<Rightarrow> ledger \<Rightarrow> jsnum \<Rightarrow> string \<Rightarrow> error + bool" where
  "CheckAssetVolatility e s volatilityThreshold oc =
     await (JSON_parse (baskets s ''basket1'')) (\<lambda>basket.
     volatility_loop e oc volatilityThreshold (Tokens basket))"

section \<open>Formulas of the properties\<close>

text \<open>
  What the properties are stated with, over the reals: the pro-rata share of a fee, the
  output of a constant-product swap, the relative change of a price, and the two
  readings of the basket invariant, \<open>D_code\<close> as the loops of \<open>SwapCBDCs\<close> compute it
  and \<open>D_spec\<close> as the sum of products.
\<close>

definition credit :: "jsnum \<Rightarrow> jsnum \<Rightarrow> LiquidityProvider \<Rightarrow> LiquidityProvider" where
  "credit fee t p = p\<lparr>earnedFees := jadd (earnedFees p) (jmul (jdiv (amount p) t) fee)\<rparr>"

definition keyed :: "(string \<times> LiquidityProvider) list \<Rightarrow> bool" where
  "keyed L = (distinct (map fst L) \<and> (\<forall>kp \<in> set L. user (snd kp) = fst kp))"

definition pro_rata :: "real \<Rightarrow> real \<Rightarrow> LiquidityProvider \<Rightarrow> LiquidityProvider" where
  "pro_rata fee totalContribution p =
     p\<lparr>earnedFees := jadd (earnedFees p) (Num (fee * the_Num (amount p) / totalContribution))\<rparr>"

definition contribution_after ::
  "string \<Rightarrow> UserContribution json \<Rightarrow> jsnum \<Rightarrow> jsnum \<Rightarrow> jsnum \<Rightarrow> UserContribution" where
  "contribution_after u parsed amountA amountB minted =
     (case parsed of
        Falsy \<Rightarrow>
          \<lparr>userId = u, contributionA = amountA, contributionB = amountB, lpTokens = minted\<rparr>
      | Obj c \<Rightarrow>
          c\<lparr>contributionA := jadd (contributionA c) amountA,
            contributionB := jadd (contributionB c) amountB,
            lpTokens := jadd (lpTokens c) minted\<rparr>)"

definition shares_before :: "UserContribution json \<Rightarrow> jsnum" where
  "shares_before parsed = (case parsed of Falsy \<Rightarrow> Num 0 | Obj c \<Rightarrow> lpTokens c)"

definition shares_after :: "UserContribution json option \<Rightarrow> jsnum option" where
  "shares_after stored = (case stored of Some (Obj c) \<Rightarrow> Some (lpTokens c) | _ \<Rightarrow> None)"

definition fees_credited ::
  "jsnum \<Rightarrow> (string \<times> LiquidityProvider) list \<Rightarrow> (string \<times> LiquidityProvider) list" where
  "fees_credited fee L =
     map (\<lambda>kp. (fst kp, credit fee (totalLiquidity (map snd L) (Num 0)) (snd kp))) L"

definition raw_output :: "real \<Rightarrow> real \<Rightarrow> real \<Rightarrow> real" where
  "raw_output inputReserve otherReserve amountIn =
     otherReserve - inputReserve * otherReserve / (inputReserve + amountIn)"

definition relative_change :: "real \<Rightarrow> real \<Rightarrow> real" where
  "relative_change current previous = \<bar>current - previous\<bar> / previous"

definition price_lookup :: "env \<Rightarrow> string \<Rightarrow> string \<Rightarrow> (jsnum \<times> jsnum) option" where
  "price_lookup e oc t =
     (case (invoke_oracle e oc ''GetCurrencyPrice'' t,
            invoke_oracle e oc ''GetPreviousCurrencyPrice'' t) of
        (Some current, Some previous) \<Rightarrow>
          if fst current = 200 \<and> fst previous = 200 then Some (snd current, snd previous)
          else None
      | _ \<Rightarrow> None)"

definition exceeds :: "jsnum \<Rightarrow> jsnum \<times> jsnum \<Rightarrow> bool" where
  "exceeds thr cp = jgt (jabs (jdiv (jsub (fst cp) (snd cp)) (snd cp))) thr"

definition D_code :: "real list \<Rightarrow> real" where
  "D_code rs =
     foldl (\<lambda>d i. (d + rs ! i) * (\<Prod>j\<leftarrow>[0..<length rs]. if i \<noteq> j then 1 + rs ! i / rs ! j else 1))
       0 [0..<length rs]"

definition D_spec :: "real list \<Rightarrow> real" where
  "D_spec rs =
     (\<Sum>i\<leftarrow>[0..<length rs].
        rs ! i * (\<Prod>j\<leftarrow>[0..<length rs]. if i \<noteq> j then 1 + rs ! i / rs ! j else 1))"

definition basket_after :: "Basket \<Rightarrow> real list \<Rightarrow> ledger \<Rightarrow> ledger" where
  "basket_after basket rs s =
     s\<lparr>baskets := (baskets s)(''basket1'' := Some (basket\<lparr>Reserves := map Num rs\<rparr>))\<rparr>"

definition no_falsy :: "ledger \<Rightarrow> bool" where
  "no_falsy s = (\<forall>u. user_contribution s u \<noteq> Some Falsy)"

section \<open>Ledgers and environments of the examples\<close>

definition providers0 :: "(string \<times> LiquidityProvider) list" where
  "providers0 = [(''alice'', \<lparr>user = ''alice'', amount = Num 30, earnedFees = Num 0\<rparr>),
                 (''bob'', \<lparr>user = ''bob'', amount = Num 70, earnedFees = Num 0\<rparr>)]"

definition env0 :: env where
  "env0 = \<lparr>tokenAContract = ''alpha'', tokenBContract = ''beta'',
            invoke_token = (\<lambda>c. Some 200),
            invoke_oracle = (\<lambda>cc f t. Some (200, if t = ''tokenB'' then Num 2 else Num 1))\<rparr>"

definition env1 :: env where
  "env1 = env0\<lparr>invoke_oracle := (\<lambda>cc f t. Some (200, Num 1))\<rparr>"

definition alice0 :: UserContribution where
  "alice0 = \<lparr>userId = ''alice'', contributionA = Num 1000, contributionB = Num 1000,
              lpTokens = Num 1000\<rparr>"

definition pool0 :: ledger where
  "pool0 = \<lparr>reserve_wallet = Some \<lparr>tokenA = Num 1000, tokenB = Num 1000\<rparr>,
             user_contribution = (\<lambda>u. if u = ''alice'' then Some (Obj alice0) else None),
             providers = [], baskets = (\<lambda>k. None)\<rparr>"

definition pool_empty :: ledger where
  "pool_empty = pool0\<lparr>reserve_wallet := Some \<lparr>tokenA = Num 0, tokenB = Num 0\<rparr>\<rparr>"

definition alice_none :: UserContribution where
  "alice_none = \<lparr>userId = ''alice'', contributionA = Num 0, contributionB = Num 0,
                 lpTokens = Num 0\<rparr>"

definition pool_fresh :: ledger where
  "pool_fresh = pool_empty\<lparr>user_contribution := (\<lambda>u. if u = ''alice'' then Some (Obj alice_none) else None)\<rparr>"

definition pool_added :: ledger where
  "pool_added = pool_fresh\<lparr>reserve_wallet := Some \<lparr>tokenA = Num 1000, tokenB = Num 1000\<rparr>,
      user_contribution := (user_contribution pool_fresh)(''alice'' := Some (Obj alice0))\<rparr>"

definition pool_added2 :: ledger where
  "pool_added2 = pool0\<lparr>reserve_wallet := Some \<lparr>tokenA = Num 1100, tokenB = Num 1100\<rparr>,
      user_contribution := (user_contribution pool0)
        (''alice'' := Some (Obj \<lparr>userId = ''alice'', contributionA = Num 1100,
                               contributionB = Num 1100, lpTokens = Num (1000 + 1 / 10)\<rparr>))\<rparr>"

definition pool_onesided :: ledger where
  "pool_onesided = pool0\<lparr>reserve_wallet := Some \<lparr>tokenA = Num 5, tokenB = Num 0\<rparr>\<rparr>"

definition pool_onesided_added :: ledger where
  "pool_onesided_added =
     pool0\<lparr>reserve_wallet := Some \<lparr>tokenA = Num 15, tokenB = Num 10\<rparr>,
       user_contribution := (user_contribution pool0)
        (''alice'' := Some (Obj \<lparr>userId = ''alice'', contributionA = Num 1010,
                               contributionB = Num 1010, lpTokens = Num 1010\<rparr>))\<rparr>"

definition pool_swapped :: ledger where
  "pool_swapped = pool0\<lparr>reserve_wallet := Some \<lparr>tokenA = Num 1100, tokenB = Num (10000 / 11)\<rparr>\<rparr>"

definition pool_swapped_B :: ledger where
  "pool_swapped_B = pool0\<lparr>reserve_wallet := Some \<lparr>tokenA = Num 800, tokenB = Num 1250\<rparr>\<rparr>"

definition alice_provider :: LiquidityProvider where
  "alice_provider = \<lparr>user = ''alice'', amount = Num 1000, earnedFees = Num 5\<rparr>"

definition basket0 :: Basket where
  "basket0 = \<lparr>docType = None, ID = ''basket1'', TokenAmount = Num 2, Tokens = [''a'', ''b''],
              Reserves = [Num 500, Num 500], Buffers = [], Weights = [], Prices = []\<rparr>"

definition pool_fees :: ledger where
  "pool_fees = pool0\<lparr>providers := [(''alice'', alice_provider)],
     baskets := (\<lambda>k. if k = ''basket1'' then Some basket0 else None)\<rparr>"

definition pool_removed :: ledger where
  "pool_removed = pool_fees\<lparr>reserve_wallet := Some \<lparr>tokenA = Num 900, tokenB = Num 900\<rparr>,
     user_contribution := (user_contribution pool_fees)
       (''alice'' := Some (Obj \<lparr>userId = ''alice'', contributionA = Num 900,
                              contributionB = Num 900, lpTokens = Num 900\<rparr>))\<rparr>"

definition env_volatile :: env where
  "env_volatile = env0\<lparr>invoke_oracle :=
     (\<lambda>cc f t. if t = ''a'' then Some (200, if f = ''GetCurrencyPrice'' then Num 2 else Num 1)
                else None)\<rparr>"

definition env_calm :: env where
  "env_calm = env0\<lparr>invoke_oracle :=
     (\<lambda>cc f t. Some (200, if f = ''GetCurrencyPrice'' then Num (101 / 100) else Num 1))\<rparr>"

section \<open>Properties\<close>

subsection \<open>Calls that return and calls that throw\<close>

lemma await_simps [simp]:
  "await (Inl err) f = Inl err"
  "await (Inr v) f = f v"
  by (simp_all add: await_def)

lemma JSON_parse_simps [simp]:
  "JSON_parse None = Inl SyntaxError"
  "JSON_parse (Some v) = Inr v"
  by (simp_all add: JSON_parse_def)

lemma resolved_simps [simp]:
  "resolved None = Inl InvokeRejected"
  "resolved (Some v) = Inr v"
  by (simp_all add: resolved_def)

lemma invokeChaincode_simps [simp]:
  "invokeChaincode (Inl err) = Inl err"
  "invokeChaincode (Inr v) = Inr (200, v)"
  by (simp_all add: invokeChaincode_def)

subsection \<open>Fee distribution\<close>

lemma update_middle:
  "k \<notin> fst ` set xs \<Longrightarrow> AList.update k v (xs @ (k, w) # ys) = xs @ (k, v) # ys"
  by (induction xs) auto

lemma map_of_middle:
  "k \<notin> fst ` set xs \<Longrightarrow> map_of (xs @ (k, w) # ys) k = Some w"
  by (induction xs) auto

lemma distribute_loop_split:
  "distinct (map fst (done @ todo)) \<Longrightarrow> \<forall>kp \<in> set todo. user (snd kp) = fst kp \<Longrightarrow>
   distribute_loop fee t (map snd todo) (done @ todo) =
     Inr (done @ map (\<lambda>kp. (fst kp, credit fee t (snd kp))) todo)"
proof (induction todo arbitrary: "done")
  case Nil
  then show ?case by simp
next
  case (Cons kp todo)
  obtain k p where kp: "kp = (k, p)" by (cases kp)
  from Cons.prems have k: "k \<notin> fst ` set done" and u: "user p = k"
    by (auto simp: kp)
  have d: "distinct (map fst ((done @ [(k, credit fee t p)]) @ todo))"
    using Cons.prems(1) by (simp add: kp)
  have r: "\<forall>kp \<in> set todo. user (snd kp) = fst kp"
    using Cons.prems(2) by simp
  have "distribute_loop fee t (map snd (kp # todo)) (done @ kp # todo) =
        distribute_loop fee t (map snd todo) ((done @ [(k, credit fee t p)]) @ todo)"
    using k u by (simp add: kp UpdateEarnedFees_def map_of_middle update_middle credit_def
        del: map_of_append)
  also have "\<dots> = Inr ((done @ [(k, credit fee t p)]) @
                     map (\<lambda>kp. (fst kp, credit fee t (snd kp))) todo)"
    by (rule Cons.IH [OF d r])
  finally show ?case by (simp add: kp)
qed

lemma distributeFees_keyed:
  assumes "keyed L"
  shows "distributeFees L fee =
           Inr (map (\<lambda>kp. (fst kp, credit fee (totalLiquidity (map snd L) (Num 0)) (snd kp))) L)"
  using assms distribute_loop_split [of "[]" L fee]
  by (simp add: distributeFees_def GetAllLiquidityProviders_def keyed_def)

lemma totalLiquidity_Num:
  "\<forall>p \<in> set ps. is_Num (amount p) \<Longrightarrow>
   totalLiquidity ps (Num a) = Num (a + (\<Sum>p\<leftarrow>ps. the_Num (amount p)))"
proof (induction ps arbitrary: a)
  case Nil
  then show ?case by simp
next
  case (Cons p ps)
  then obtain c where c: "amount p = Num c" by (cases "amount p") auto
  with Cons show ?case by (simp add: algebra_simps)
qed

lemma credit_pro_rata:
  "is_Num (amount p) \<Longrightarrow> T \<noteq> 0 \<Longrightarrow> credit (Num f) (Num T) p = pro_rata f T p"
  by (cases "amount p") (simp_all add: credit_def pro_rata_def mult.commute)

lemma distributeFees_Num:
  assumes "keyed L" and "\<forall>kp \<in> set L. is_Num (amount (snd kp))"
    and "T = (\<Sum>kp\<leftarrow>L. the_Num (amount (snd kp)))" and "T \<noteq> 0"
  shows "distributeFees L (Num f) = Inr (map (\<lambda>kp. (fst kp, pro_rata f T (snd kp))) L)"
proof -
  have "totalLiquidity (map snd L) (Num 0) = Num T"
    using assms(2,3) by (simp add: totalLiquidity_Num comp_def)
  then show ?thesis
    using assms by (simp add: distributeFees_keyed credit_pro_rata)
qed

lemma keyed_mset:
  assumes "mset L2 = mset L" and "keyed L"
  shows "keyed L2"
proof -
  have "mset (map fst L2) = mset (map fst L)"
    using assms(1) by (metis mset_map)
  then have "distinct (map fst L2) = distinct (map fst L)"
    by (rule mset_eq_imp_distinct_iff)
  moreover have "set L2 = set L"
    using assms(1) by (rule mset_eq_setD)
  ultimately show ?thesis
    using assms(2) by (simp add: keyed_def)
qed

lemma sum_amounts_mset:
  assumes "mset L2 = mset L"
  shows "(\<Sum>kp\<leftarrow>L2. the_Num (amount (snd kp))) = (\<Sum>kp\<leftarrow>L. the_Num (amount (snd kp)))"
proof -
  have "mset (map (\<lambda>kp. the_Num (amount (snd kp))) L2) =
        mset (map (\<lambda>kp. the_Num (amount (snd kp))) L)"
    using assms by (metis mset_map)
  then show ?thesis
    by (metis sum_mset_sum_list)
qed

text \<open>
  Claim C8. On a ledger of providers in which every key holds the provider of that name,
  with finite amounts of non-zero sum \<open>T\<close>, \<open>distributeFees\<close> adds
  \<open>fee * amount / T\<close> to the earned fees of every provider and changes nothing else.
  The amounts credited do not depend on the order in which the ledger lists the
  providers: every rearrangement of the ledger gives each provider the same credit.
\<close>

theorem distributeFees_pro_rata:
  assumes "keyed L" and "\<forall>kp \<in> set L. is_Num (amount (snd kp))"
    and "T = (\<Sum>kp\<leftarrow>L. the_Num (amount (snd kp)))" and "T \<noteq> 0"
  shows "distributeFees L (Num f) = Inr (map (\<lambda>kp. (fst kp, pro_rata f T (snd kp))) L) \<and>
         (\<forall>L2. mset L2 = mset L \<longrightarrow>
            distributeFees L2 (Num f) = Inr (map (\<lambda>kp. (fst kp, pro_rata f T (snd kp))) L2))"
proof (intro conjI allI impI)
  show "distributeFees L (Num f) = Inr (map (\<lambda>kp. (fst kp, pro_rata f T (snd kp))) L)"
    using assms by (rule distributeFees_Num)
next
  fix L2 assume p: "mset L2 = mset L"
  have "keyed L2" using p assms(1) by (rule keyed_mset)
  moreover have "\<forall>kp \<in> set L2. is_Num (amount (snd kp))"
    using assms(2) mset_eq_setD [OF p] by simp
  moreover have "T = (\<Sum>kp\<leftarrow>L2. the_Num (amount (snd kp)))"
    using assms(3) sum_amounts_mset [OF p] by simp
  ultimately show "distributeFees L2 (Num f) =
      Inr (map (\<lambda>kp. (fst kp, pro_rata f T (snd kp))) L2)"
    using assms(4) by (rule distributeFees_Num)
qed

text \<open>
  A fee of 10 over the contributions 30 and 70 credits 3 and 7, in either order of the
  two providers.
\<close>

theorem distributeFees_pro_rata_witness:
  "distributeFees providers0 (Num 10) =
     Inr [(''alice'', \<lparr>user = ''alice'', amount = Num 30, earnedFees = Num 3\<rparr>),
          (''bob'', \<lparr>user = ''bob'', amount = Num 70, earnedFees = Num 7\<rparr>)] \<and>
   distributeFees (rev providers0) (Num 10) =
     Inr [(''bob'', \<lparr>user = ''bob'', amount = Num 70, earnedFees = Num 7\<rparr>),
          (''alice'', \<lparr>user = ''alice'', amount = Num 30, earnedFees = Num 3\<rparr>)]"
proof -
  have k: "keyed providers0" by (simp add: keyed_def providers0_def)
  have n: "\<forall>kp \<in> set providers0. is_Num (amount (snd kp))" by (simp add: providers0_def)
  have t: "(100::real) = (\<Sum>kp\<leftarrow>providers0. the_Num (amount (snd kp)))" by (simp add: providers0_def)
  have z: "(100::real) \<noteq> 0" by simp
  have m: "mset (rev providers0) = mset providers0" by simp
  note w = distributeFees_pro_rata [OF k n t z, of 10]
  from w m have "distributeFees (rev providers0) (Num 10) =
     Inr (map (\<lambda>kp. (fst kp, pro_rata 10 100 (snd kp))) (rev providers0))" by blast
  with w show ?thesis by (simp add: providers0_def pro_rata_def)
qed

subsection \<open>The ratio check of AddLiquidity\<close>

lemma getPriceFromOracle_200:
  "invoke_oracle e oracleContractName ''GetCurrencyPrice'' t = Some (200, p) \<Longrightarrow>
   getPriceFromOracle e t = Inr p"
  by (simp add: getPriceFromOracle_def)

text \<open>
  Claim C6, amended. With both oracle prices delivered, \<open>AddLiquidity\<close> fails with the
  ratio error exactly when \<open>|amountA * priceA - amountB * priceB| > 0.01\<close>. The test
  uses the oracle's prices, not the reserves, and it is made on every ledger, whether
  the pool is empty or not.
\<close>

theorem AddLiquidity_price_check:
  assumes "invoke_oracle e oracleContractName ''GetCurrencyPrice'' ''tokenA'' = Some (200, priceA)"
    and "invoke_oracle e oracleContractName ''GetCurrencyPrice'' ''tokenB'' = Some (200, priceB)"
  shows "AddLiquidity e s u amountA amountB = Inl PriceRatioMismatch \<longleftrightarrow>
         jgt (jabs (jsub (jmul amountA priceA) (jmul amountB priceB))) (Num (1 / 100))"
  using assms
  by (cases "reserve_wallet s"; cases "user_contribution s u")
     (auto simp: AddLiquidity_def getPriceFromOracle_200 Let_def split: json.splits)

lemma jsub_Num [simp]: "jsub (Num a) (Num b) = Num (a - b)"
  by (simp add: jsub_def)

theorem AddLiquidity_price_check_witness:
  "AddLiquidity env0 pool_empty ''alice'' (Num 1) (Num 1) = Inl PriceRatioMismatch \<and>
   AddLiquidity env0 pool0 ''alice'' (Num 2) (Num 1) \<noteq> Inl PriceRatioMismatch"
proof -
  have a: "invoke_oracle env0 oracleContractName ''GetCurrencyPrice'' ''tokenA'' = Some (200, Num 1)"
    by (simp add: env0_def)
  have b: "invoke_oracle env0 oracleContractName ''GetCurrencyPrice'' ''tokenB'' = Some (200, Num 2)"
    by (simp add: env0_def)
  show ?thesis
    using AddLiquidity_price_check [OF a b, of pool_empty "''alice''" "Num 1" "Num 1"]
      AddLiquidity_price_check [OF a b, of pool0 "''alice''" "Num 2" "Num 1"]
    by (simp add: jgt_def)
qed

text \<open>
  As the claim states it, the check fails on the code. With the oracle prices 1 and 2,
  the empty pool refuses the positive amounts 1 and 1, and the pool with reserves of
  1000 and 1000 accepts the amounts 2 and 1, which are not in the ratio of its reserves.
\<close>

theorem AddLiquidity_ratio_counterexample:
  "reserve_wallet pool_empty = Some \<lparr>tokenA = Num 0, tokenB = Num 0\<rparr> \<and>
   AddLiquidity env0 pool_empty ''alice'' (Num 1) (Num 1) = Inl PriceRatioMismatch \<and>
   reserve_wallet pool0 = Some \<lparr>tokenA = Num 1000, tokenB = Num 1000\<rparr> \<and>
   AddLiquidity env0 pool0 ''alice'' (Num 2) (Num 1) =
     Inr (True,
          pool0\<lparr>reserve_wallet := Some \<lparr>tokenA = Num 1002, tokenB = Num 1001\<rparr>,
                 user_contribution := (user_contribution pool0)
                   (''alice'' := Some (Obj \<lparr>userId = ''alice'', contributionA = Num 1002,
                      contributionB = Num 1001, lpTokens = Num (1000 + 1 / 1000)\<rparr>))\<rparr>,
          [transfer ''alpha'' ''alice'' RESERVE_WALLET_KEY (Num 2),
           transfer ''beta'' ''alice'' RESERVE_WALLET_KEY (Num 1)])"
  by (simp add: AddLiquidity_def getPriceFromOracle_def env0_def pool0_def pool_empty_def
      jgt_def Let_def lpTokensToMint_def putReserve_def putContribution_def alice0_def)

subsection \<open>Init\<close>

text \<open>
  Claim C4, amended. \<open>Init\<close> has no guard: on every ledger, with or without stored
  reserves, it returns and stores both reserves as zero.
\<close>

theorem Init_resets_reserves:
  "Init s = Inr ((), s\<lparr>reserve_wallet := Some \<lparr>tokenA = Num 0, tokenB = Num 0\<rparr>\<rparr>)"
  by (simp add: Init_def putReserve_def)

text \<open>
  On a ledger that holds reserves of 1000 and 1000, \<open>Init\<close> does not fail and the reserves
  it leaves are zero.
\<close>

theorem Init_initialized_counterexample:
  "reserve_wallet pool0 = Some \<lparr>tokenA = Num 1000, tokenB = Num 1000\<rparr> \<and>
   Init pool0 = Inr ((), pool0\<lparr>reserve_wallet := Some \<lparr>tokenA = Num 0, tokenB = Num 0\<rparr>\<rparr>)"
  by (simp add: Init_def putReserve_def pool0_def)

subsection \<open>A user without a stored contribution\<close>

lemma AddLiquidity_first_time:
  assumes "user_contribution s u = None"
  shows "\<exists>err. AddLiquidity e s u amountA amountB = Inl err"
  using assms
  by (cases "getPriceFromOracle e ''tokenA''"; cases "getPriceFromOracle e ''tokenB''";
      cases "reserve_wallet s")
     (simp_all add: AddLiquidity_def Let_def)

lemma RemoveLiquidity_first_time:
  assumes "user_contribution s u = None"
  shows "RemoveLiquidity e s u lpAmount = Inl SyntaxError"
  using assms
  by (cases "reserve_wallet s") (simp_all add: RemoveLiquidity_def)

text \<open>
  Claim C10. For a user with nothing stored under the contribution key,
  \<open>AddLiquidity\<close> throws, so nothing is committed and the branch that creates a first
  contribution is not reached; \<open>RemoveLiquidity\<close> throws the \<open>SyntaxError\<close> of
  \<open>JSON.parse\<close>, not the error of the test for insufficient LP tokens.
\<close>

theorem first_time_provider_throws:
  assumes "user_contribution s u = None"
  shows "(\<exists>err. AddLiquidity e s u amountA amountB = Inl err) \<and>
         RemoveLiquidity e s u lpAmount = Inl SyntaxError \<and>
         RemoveLiquidity e s u lpAmount \<noteq> Inl InsufficientLPTokens"
  using AddLiquidity_first_time [OF assms] RemoveLiquidity_first_time [OF assms]
  by simp

theorem first_time_provider_throws_witness:
  "user_contribution pool0 ''bob'' = None \<and>
   AddLiquidity env1 pool0 ''bob'' (Num 100) (Num 100) = Inl SyntaxError \<and>
   RemoveLiquidity env1 pool0 ''bob'' (Num 1) = Inl SyntaxError"
proof -
  have n: "user_contribution pool0 ''bob'' = None" by (simp add: pool0_def)
  have a: "AddLiquidity env1 pool0 ''bob'' (Num 100) (Num 100) = Inl SyntaxError"
    by (simp add: AddLiquidity_def getPriceFromOracle_def env0_def env1_def pool0_def
        jgt_def Let_def)
  show ?thesis
    using first_time_provider_throws [OF n, of env1 "Num 100" "Num 100" "Num 1"] n a
    by simp
qed

subsection \<open>Shares minted by AddLiquidity\<close>

lemma jadd_zero_left [simp]: "jadd (Num 0) x = x"
  by (cases x) simp_all

lemma AddLiquidity_success:
  assumes "AddLiquidity e s u amountA amountB = Inr (ok, s', calls)"
  shows "\<exists>r parsed. reserve_wallet s = Some r \<and> user_contribution s u = Some parsed \<and>
    reserve_wallet s' = Some \<lparr>tokenA = jadd (tokenA r) amountA,
                                tokenB = jadd (tokenB r) amountB\<rparr> \<and>
    shares_after (user_contribution s' u) =
           Some (jadd (shares_before parsed) (lpTokensToMint r amountA amountB))"
proof (cases "getPriceFromOracle e ''tokenA''")
  case (Inl a)
  with assms show ?thesis by (simp add: AddLiquidity_def)
next
  case A: (Inr priceA)
  show ?thesis
  proof (cases "getPriceFromOracle e ''tokenB''")
    case (Inl a)
    with assms A show ?thesis by (simp add: AddLiquidity_def)
  next
    case B: (Inr priceB)
    show ?thesis
    proof (cases "reserve_wallet s")
      case None
      with assms A B show ?thesis by (simp add: AddLiquidity_def Let_def split: if_splits)
    next
      case R: (Some r)
      show ?thesis
      proof (cases "user_contribution s u")
        case None
        with assms A B R show ?thesis by (simp add: AddLiquidity_def Let_def split: if_splits)
      next
        case (Some parsed)
        with assms A B R show ?thesis
          by (cases parsed)
             (auto simp add: AddLiquidity_def Let_def putReserve_def putContribution_def
              shares_after_def shares_before_def split: if_splits)
      qed
    qed
  qed
qed

lemma AddLiquidity_run:
  assumes "reserve_wallet s = Some r" and "user_contribution s u = Some parsed"
    and "getPriceFromOracle e ''tokenA'' = Inr priceA"
    and "getPriceFromOracle e ''tokenB'' = Inr priceB"
    and "\<not> jgt (jabs (jsub (jmul amountA priceA) (jmul amountB priceB))) (Num (1 / 100))"
    and "invoke_token e (transfer (tokenAContract e) u RESERVE_WALLET_KEY amountA) \<noteq> None"
    and "invoke_token e (transfer (tokenBContract e) u RESERVE_WALLET_KEY amountB) \<noteq> None"
  shows "AddLiquidity e s u amountA amountB =
           Inr (True,
                putContribution
                  (putReserve s \<lparr>tokenA = jadd (tokenA r) amountA,
                                 tokenB = jadd (tokenB r) amountB\<rparr>) u
                  (contribution_after u parsed amountA amountB
                     (lpTokensToMint r amountA amountB)),
                [transfer (tokenAContract e) u RESERVE_WALLET_KEY amountA,
                 transfer (tokenBContract e) u RESERVE_WALLET_KEY amountB])"
  using assms
  by (cases parsed) (simp_all add: AddLiquidity_def Let_def contribution_after_def)

text \<open>
  Claim C5, amended. When the oracle delivers both prices, the ratio check passes and the
  token chaincodes accept the two transfers, \<open>AddLiquidity\<close> returns, adds the amounts to
  the reserves and adds the minted shares to the LP tokens of the user's contribution.
  The shares minted are \<open>sqrt (amountA * amountB)\<close> when either reserve was zero and
  \<open>min (amountA / reserveA) (amountB / reserveB)\<close> when both were non-zero. Every
  \<open>AddLiquidity\<close> that returns leaves these reserves and these shares, and the reserves
  are the amounts supplied when both reserves were zero.
\<close>

theorem AddLiquidity_minted_shares:
  assumes "reserve_wallet s = Some r" and "user_contribution s u = Some parsed"
    and "minted = (if tokenA r = Num 0 \<or> tokenB r = Num 0 then jsqrt (jmul amountA amountB)
                   else jmin (jdiv amountA (tokenA r)) (jdiv amountB (tokenB r)))"
    and "reserve' = \<lparr>tokenA = jadd (tokenA r) amountA, tokenB = jadd (tokenB r) amountB\<rparr>"
    and "callA = transfer (tokenAContract e) u RESERVE_WALLET_KEY amountA"
    and "callB = transfer (tokenBContract e) u RESERVE_WALLET_KEY amountB"
  shows "(getPriceFromOracle e ''tokenA'' = Inr priceA \<and>
          getPriceFromOracle e ''tokenB'' = Inr priceB \<and>
          \<not> jgt (jabs (jsub (jmul amountA priceA) (jmul amountB priceB))) (Num (1 / 100)) \<and>
          invoke_token e callA \<noteq> None \<and> invoke_token e callB \<noteq> None \<longrightarrow>
            AddLiquidity e s u amountA amountB =
              Inr (True,
                   putContribution (putReserve s reserve') u
                     (contribution_after u parsed amountA amountB minted),
                   [callA, callB])) \<and>
         (\<forall>ok s' calls. AddLiquidity e s u amountA amountB = Inr (ok, s', calls) \<longrightarrow>
            reserve_wallet s' = Some reserve' \<and>
            shares_after (user_contribution s' u) = Some (jadd (shares_before parsed) minted)) \<and>
         (tokenA r = Num 0 \<and> tokenB r = Num 0 \<longrightarrow>
            reserve' = \<lparr>tokenA = amountA, tokenB = amountB\<rparr>)"
proof (intro conjI allI impI)
  have m: "minted = lpTokensToMint r amountA amountB"
    using assms(3) by (simp add: lpTokensToMint_def)
  {
    assume h: "getPriceFromOracle e ''tokenA'' = Inr priceA \<and>
          getPriceFromOracle e ''tokenB'' = Inr priceB \<and>
          \<not> jgt (jabs (jsub (jmul amountA priceA) (jmul amountB priceB))) (Num (1 / 100)) \<and>
          invoke_token e callA \<noteq> None \<and> invoke_token e callB \<noteq> None"
    show "AddLiquidity e s u amountA amountB =
              Inr (True,
                   putContribution (putReserve s reserve') u
                     (contribution_after u parsed amountA amountB minted),
                   [callA, callB])"
    proof -
      from h have pa: "getPriceFromOracle e ''tokenA'' = Inr priceA"
        and pb: "getPriceFromOracle e ''tokenB'' = Inr priceB"
        and ck: "\<not> jgt (jabs (jsub (jmul amountA priceA) (jmul amountB priceB)))
                   (Num (1 / 100))"
        and ta: "invoke_token e (transfer (tokenAContract e) u RESERVE_WALLET_KEY amountA)
                 \<noteq> None"
        and tb: "invoke_token e (transfer (tokenBContract e) u RESERVE_WALLET_KEY amountB)
                 \<noteq> None"
        by (simp_all add: assms(5,6))
      show ?thesis
        unfolding m assms(4,5,6) by (rule AddLiquidity_run [OF assms(1,2) pa pb ck ta tb])
    qed
  }
  {
    fix ok s' calls
    assume r: "AddLiquidity e s u amountA amountB = Inr (ok, s', calls)"
    from AddLiquidity_success [OF r] assms(1,2,4)
    show "reserve_wallet s' = Some reserve'" by auto
    from AddLiquidity_success [OF r] assms(1,2)
    show "shares_after (user_contribution s' u) = Some (jadd (shares_before parsed) minted)"
      by (auto simp: m)
  }
  {
    assume "tokenA r = Num 0 \<and> tokenB r = Num 0"
    then show "reserve' = \<lparr>tokenA = amountA, tokenB = amountB\<rparr>"
      using assms(4) by simp
  }
qed

lemma sqrt_million: "sqrt 1000000 = 1000"
  by (rule real_sqrt_unique) simp_all

lemma sqrt_hundred: "sqrt 100 = 10"
  by (rule real_sqrt_unique) simp_all

lemma env1_prices:
  "getPriceFromOracle env1 ''tokenA'' = Inr (Num 1)"
  "getPriceFromOracle env1 ''tokenB'' = Inr (Num 1)"
  by (simp_all add: getPriceFromOracle_def env1_def env0_def)

text \<open>
  Two runs: 1000 and 1000 into a pool with reserves of zero mint 1000 shares and leave
  reserves of 1000 and 1000; 100 and 100 into a pool with reserves of 1000 and 1000 mint
  one tenth of a share.
\<close>

theorem AddLiquidity_minted_shares_witness:
  "AddLiquidity env1 pool_fresh ''alice'' (Num 1000) (Num 1000) =
     Inr (True, pool_added,
          [transfer ''alpha'' ''alice'' RESERVE_WALLET_KEY (Num 1000),
           transfer ''beta'' ''alice'' RESERVE_WALLET_KEY (Num 1000)]) \<and>
   shares_after (user_contribution pool_fresh ''alice'') = Some (Num 0) \<and>
   shares_after (user_contribution pool_added ''alice'') = Some (Num 1000) \<and>
   reserve_wallet pool_added = Some \<lparr>tokenA = Num 1000, tokenB = Num 1000\<rparr> \<and>
   AddLiquidity env1 pool0 ''alice'' (Num 100) (Num 100) =
     Inr (True, pool_added2,
          [transfer ''alpha'' ''alice'' RESERVE_WALLET_KEY (Num 100),
           transfer ''beta'' ''alice'' RESERVE_WALLET_KEY (Num 100)]) \<and>
   shares_after (user_contribution pool0 ''alice'') = Some (Num 1000) \<and>
   shares_after (user_contribution pool_added2 ''alice'') = Some (Num (1000 + 1 / 10))"
proof -
  have r1: "reserve_wallet pool_fresh = Some \<lparr>tokenA = Num 0, tokenB = Num 0\<rparr>"
    by (simp add: pool_fresh_def pool_empty_def)
  have c1: "user_contribution pool_fresh ''alice'' = Some (Obj alice_none)"
    by (simp add: pool_fresh_def)
  have r2: "reserve_wallet pool0 = Some \<lparr>tokenA = Num 1000, tokenB = Num 1000\<rparr>"
    by (simp add: pool0_def)
  have c2: "user_contribution pool0 ''alice'' = Some (Obj alice0)"
    by (simp add: pool0_def)
  have m1: "Num 1000 =
      (if tokenA \<lparr>tokenA = Num 0, tokenB = Num 0\<rparr> = Num 0 \<or>
          tokenB \<lparr>tokenA = Num 0, tokenB = Num 0\<rparr> = Num 0
       then jsqrt (jmul (Num 1000) (Num 1000))
       else jmin (jdiv (Num 1000) (tokenA \<lparr>tokenA = Num 0, tokenB = Num 0\<rparr>))
                 (jdiv (Num 1000) (tokenB \<lparr>tokenA = Num 0, tokenB = Num 0\<rparr>)))"
    by (simp add: sqrt_million)
  have m2: "Num (1 / 10) =
      (if tokenA \<lparr>tokenA = Num 1000, tokenB = Num 1000\<rparr> = Num 0 \<or>
          tokenB \<lparr>tokenA = Num 1000, tokenB = Num 1000\<rparr> = Num 0
       then jsqrt (jmul (Num 100) (Num 100))
       else jmin (jdiv (Num 100) (tokenA \<lparr>tokenA = Num 1000, tokenB = Num 1000\<rparr>))
                 (jdiv (Num 100) (tokenB \<lparr>tokenA = Num 1000, tokenB = Num 1000\<rparr>)))"
    by simp
  have v1: "\<lparr>tokenA = Num 1000, tokenB = Num 1000\<rparr> =
      \<lparr>tokenA = jadd (tokenA \<lparr>tokenA = Num 0, tokenB = Num 0\<rparr>) (Num 1000),
       tokenB = jadd (tokenB \<lparr>tokenA = Num 0, tokenB = Num 0\<rparr>) (Num 1000)\<rparr>"
    by simp
  have v2: "\<lparr>tokenA = Num 1100, tokenB = Num 1100\<rparr> =
      \<lparr>tokenA = jadd (tokenA \<lparr>tokenA = Num 1000, tokenB = Num 1000\<rparr>) (Num 100),
       tokenB = jadd (tokenB \<lparr>tokenA = Num 1000, tokenB = Num 1000\<rparr>) (Num 100)\<rparr>"
    by simp
  note w1 = AddLiquidity_minted_shares [OF r1 c1 m1 v1 refl refl,
      of env1 "Num 1" "Num 1"]
  note w2 = AddLiquidity_minted_shares [OF r2 c2 m2 v2 refl refl,
      of env1 "Num 1" "Num 1"]
  have t: "\<And>c. invoke_token env1 c \<noteq> None" by (simp add: env1_def env0_def)
  have k: "\<not> jgt (jabs (jsub (jmul (Num 1000) (Num 1)) (jmul (Num 1000) (Num 1)))) (Num (1 / 100))"
    "\<not> jgt (jabs (jsub (jmul (Num 100) (Num 1)) (jmul (Num 100) (Num 1)))) (Num (1 / 100))"
    by (simp_all add: jgt_def)
  have l1: "putContribution
      (putReserve pool_fresh \<lparr>tokenA = Num 1000, tokenB = Num 1000\<rparr>) ''alice''
      (contribution_after ''alice'' (Obj alice_none) (Num 1000) (Num 1000) (Num 1000)) =
        pool_added"
    by (simp add: putContribution_def putReserve_def contribution_after_def pool_added_def
        pool_fresh_def alice_none_def alice0_def)
  have l2: "putContribution
      (putReserve pool0 \<lparr>tokenA = Num 1100, tokenB = Num 1100\<rparr>) ''alice''
      (contribution_after ''alice'' (Obj alice0) (Num 100) (Num 100) (Num (1 / 10))) =
        pool_added2"
    by (simp add: putContribution_def putReserve_def contribution_after_def pool_added2_def
        pool0_def alice0_def)
  have e: "tokenAContract env1 = ''alpha''" "tokenBContract env1 = ''beta''"
    by (simp_all add: env1_def env0_def)
  have run1: "AddLiquidity env1 pool_fresh ''alice'' (Num 1000) (Num 1000) =
     Inr (True, pool_added,
          [transfer ''alpha'' ''alice'' RESERVE_WALLET_KEY (Num 1000),
           transfer ''beta'' ''alice'' RESERVE_WALLET_KEY (Num 1000)])"
    using w1 [THEN conjunct1, unfolded l1 e] env1_prices k(1) t by blast
  have run2: "AddLiquidity env1 pool0 ''alice'' (Num 100) (Num 100) =
     Inr (True, pool_added2,
          [transfer ''alpha'' ''alice'' RESERVE_WALLET_KEY (Num 100),
           transfer ''beta'' ''alice'' RESERVE_WALLET_KEY (Num 100)])"
    using w2 [THEN conjunct1, unfolded l2 e] env1_prices k(2) t by blast
  have s1: "shares_after (user_contribution pool_added ''alice'') = Some (Num 1000)"
    "reserve_wallet pool_added = Some \<lparr>tokenA = Num 1000, tokenB = Num 1000\<rparr>"
    using w1 [THEN conjunct2, THEN conjunct1] run1
    by (auto simp: shares_before_def alice_none_def)
  have s2: "shares_after (user_contribution pool_added2 ''alice'') = Some (Num (1000 + 1 / 10))"
    using w2 [THEN conjunct2, THEN conjunct1] run2
    by (auto simp: shares_before_def alice0_def)
  have b: "shares_after (user_contribution pool_fresh ''alice'') = Some (Num 0)"
    "shares_after (user_contribution pool0 ''alice'') = Some (Num 1000)"
    by (simp_all add: shares_after_def c1 c2 alice_none_def alice0_def)
  show ?thesis
    using run1 run2 s1 s2 b by (intro conjI)
qed

text \<open>
  As the claim states it, a pool is either empty, and then left with the amounts supplied,
  or non-empty, and then mints the smaller ratio. On the reserves 5 and 0 the amounts 10
  and 10 mint 10 shares, the square root, where the smaller ratio is 2, and the reserves
  left are 15 and 10.
\<close>

theorem AddLiquidity_one_zero_reserve_counterexample:
  "reserve_wallet pool_onesided = Some \<lparr>tokenA = Num 5, tokenB = Num 0\<rparr> \<and>
   shares_after (user_contribution pool_onesided ''alice'') = Some (Num 1000) \<and>
   AddLiquidity env1 pool_onesided ''alice'' (Num 10) (Num 10) =
     Inr (True, pool_onesided_added,
          [transfer ''alpha'' ''alice'' RESERVE_WALLET_KEY (Num 10),
           transfer ''beta'' ''alice'' RESERVE_WALLET_KEY (Num 10)]) \<and>
   shares_after (user_contribution pool_onesided_added ''alice'') = Some (Num 1010) \<and>
   reserve_wallet pool_onesided_added = Some \<lparr>tokenA = Num 15, tokenB = Num 10\<rparr> \<and>
   jsqrt (jmul (Num 10) (Num 10)) = Num 10 \<and>
   jmin (jdiv (Num 10) (Num 5)) (jdiv (Num 10) (Num 0)) = Num 2"
proof -
  have "AddLiquidity env1 pool_onesided ''alice'' (Num 10) (Num 10) =
     Inr (True, pool_onesided_added,
          [transfer ''alpha'' ''alice'' RESERVE_WALLET_KEY (Num 10),
           transfer ''beta'' ''alice'' RESERVE_WALLET_KEY (Num 10)])"
    by (simp add: AddLiquidity_def getPriceFromOracle_def env0_def env1_def pool0_def
        pool_onesided_def pool_onesided_added_def jgt_def Let_def lpTokensToMint_def
        putReserve_def putContribution_def alice0_def sqrt_hundred)
  moreover have "shares_after (user_contribution pool_onesided ''alice'') = Some (Num 1000)"
    "shares_after (user_contribution pool_onesided_added ''alice'') = Some (Num 1010)"
    "reserve_wallet pool_onesided = Some \<lparr>tokenA = Num 5, tokenB = Num 0\<rparr>"
    "reserve_wallet pool_onesided_added = Some \<lparr>tokenA = Num 15, tokenB = Num 10\<rparr>"
    by (simp_all add: shares_after_def pool_onesided_def pool_onesided_added_def pool0_def
        alice0_def)
  moreover have "jsqrt (jmul (Num 10) (Num 10)) = Num 10"
    "jmin (jdiv (Num 10) (Num 5)) (jdiv (Num 10) (Num 0)) = Num 2"
    by (simp_all add: sqrt_hundred)
  ultimately show ?thesis by (intro conjI)
qed

subsection \<open>Swap\<close>

lemma raw_swap_tokenA:
  "a + x \<noteq> 0 \<Longrightarrow>
   raw_swap \<lparr>tokenA = Num a, tokenB = Num b\<rparr> ''tokenA'' (Num x) =
     (\<lparr>tokenA = Num (a + x), tokenB = Num (b - raw_output a b x)\<rparr>, Num (raw_output a b x))"
  by (simp add: raw_swap_def raw_output_def Let_def)

lemma raw_swap_tokenB:
  "tok \<noteq> ''tokenA'' \<Longrightarrow> b + x \<noteq> 0 \<Longrightarrow>
   raw_swap \<lparr>tokenA = Num a, tokenB = Num b\<rparr> tok (Num x) =
     (\<lparr>tokenA = Num (a - raw_output b a x), tokenB = Num (b + x)\<rparr>, Num (raw_output b a x))"
  by (simp add: raw_swap_def raw_output_def Let_def mult.commute)

lemma Swap_success:
  assumes "Swap e s u tok amountIn = Inr (out, s', calls)"
  shows "\<exists>r. reserve_wallet s = Some r \<and>
    reserve_wallet s' = Some (fst (raw_swap r tok amountIn)) \<and>
    out = jsub (snd (raw_swap r tok amountIn)) (jmul (snd (raw_swap r tok amountIn)) FEE_RATE) \<and>
    calls = [fst (swap_transfers e u tok amountIn out), snd (swap_transfers e u tok amountIn out)]"
proof (cases "reserve_wallet s")
  case None
  with assms show ?thesis by (simp add: Swap_def)
next
  case (Some r)
  show ?thesis
  proof (cases "distributeFees (providers s)
                  (jmul (snd (raw_swap r tok amountIn)) FEE_RATE)")
    case (Inl a)
    with assms Some show ?thesis by (simp add: Swap_def Let_def)
  next
    case (Inr L')
    with assms Some show ?thesis
      by (auto simp add: Swap_def Let_def putReserve_def split: if_splits)
  qed
qed

lemma product_kept:
  assumes "0 < a" and "0 < x" and "0 < (b::real)"
  shows "(a + x) * (b - raw_output a b x) = a * b"
  using assms by (simp add: raw_output_def)

lemma raw_output_positive:
  assumes "0 < a" and "0 < b" and "0 < (x::real)"
  shows "0 < raw_output a b x"
proof -
  have "raw_output a b x = b * x / (a + x)"
    using assms by (simp add: raw_output_def field_simps)
  then show ?thesis using assms by simp
qed

lemma Swap_positive:
  assumes "reserve_wallet s = Some \<lparr>tokenA = Num a, tokenB = Num b\<rparr>"
    and "0 < a" and "0 < b" and "0 < x"
    and "Swap e s u tok (Num x) = Inr (out, s', calls)"
  shows "if tok = ''tokenA''
         then out = Num (raw_output a b x - raw_output a b x * (3 / 1000)) \<and>
              reserve_wallet s' =
                Some \<lparr>tokenA = Num (a + x), tokenB = Num (b - raw_output a b x)\<rparr>
         else out = Num (raw_output b a x - raw_output b a x * (3 / 1000)) \<and>
              reserve_wallet s' =
                Some \<lparr>tokenA = Num (a - raw_output b a x), tokenB = Num (b + x)\<rparr>"
proof (cases "tok = ''tokenA''")
  case True
  have nz: "a + x \<noteq> 0" using assms(2,4) by simp
  from Swap_success [OF assms(5)] assms(1) True show ?thesis
    by (auto simp: raw_swap_tokenA [OF nz] FEE_RATE_def)
next
  case False
  have nz: "b + x \<noteq> 0" using assms(3,4) by simp
  from Swap_success [OF assms(5)] assms(1) False show ?thesis
    by (auto simp: raw_swap_tokenB [OF False nz] FEE_RATE_def)
qed

lemma Swap_run:
  assumes "reserve_wallet s = Some r" and "keyed (providers s)"
    and "rawOut = snd (raw_swap r tok amountIn)" and "fee = jmul rawOut FEE_RATE"
    and "out = jsub rawOut fee"
    and "invoke_token e (fst (swap_transfers e u tok amountIn out)) \<noteq> None"
    and "invoke_token e (snd (swap_transfers e u tok amountIn out)) \<noteq> None"
  shows "Swap e s u tok amountIn =
           Inr (out,
                putReserve (s\<lparr>providers := fees_credited fee (providers s)\<rparr>)
                  (fst (raw_swap r tok amountIn)),
                [fst (swap_transfers e u tok amountIn out),
                 snd (swap_transfers e u tok amountIn out)])"
  using assms by (simp add: Swap_def Let_def distributeFees_keyed fees_credited_def)

lemma raw_swap_positive:
  assumes "0 < a" and "0 < b" and "0 < x"
    and "raw = (if tok = ''tokenA'' then raw_output a b x else raw_output b a x)"
  shows "raw_swap \<lparr>tokenA = Num a, tokenB = Num b\<rparr> tok (Num x) =
           (if tok = ''tokenA'' then \<lparr>tokenA = Num (a + x), tokenB = Num (b - raw)\<rparr>
            else \<lparr>tokenA = Num (a - raw), tokenB = Num (b + x)\<rparr>, Num raw)"
proof (cases "tok = ''tokenA''")
  case True
  have "a + x \<noteq> 0" using assms(1,3) by simp
  with True assms(4) show ?thesis by (simp add: raw_swap_tokenA)
next
  case False
  have "b + x \<noteq> 0" using assms(2,3) by simp
  with False assms(4) show ?thesis by (simp add: raw_swap_tokenB)
qed

text \<open>
  Claim C3. On positive reserves \<open>a\<close>, \<open>b\<close> and a positive input \<open>x\<close>, let \<open>raw\<close> be
  \<open>other - a * b / (input + x)\<close>. When every key of the provider ledger holds the
  provider of that name and the token chaincodes accept the two transfers, the swap
  returns \<open>raw * (1 - 0.003)\<close>, stores the input reserve raised by \<open>x\<close> and the other
  reserve lowered by \<open>raw\<close>, and credits the fee \<open>raw * 0.003\<close> to the providers. Every
  swap that returns has this value and these reserves, and their product is \<open>a * b\<close>.
\<close>

theorem Swap_constant_product:
  assumes "reserve_wallet s = Some \<lparr>tokenA = Num a, tokenB = Num b\<rparr>"
    and "0 < a" and "0 < b" and "0 < x"
    and "raw = (if tok = ''tokenA'' then raw_output a b x else raw_output b a x)"
    and "reserve' = (if tok = ''tokenA'' then \<lparr>tokenA = Num (a + x), tokenB = Num (b - raw)\<rparr>
                     else \<lparr>tokenA = Num (a - raw), tokenB = Num (b + x)\<rparr>)"
    and "callIn = fst (swap_transfers e u tok (Num x) (Num (raw * (1 - 3 / 1000))))"
    and "callOut = snd (swap_transfers e u tok (Num x) (Num (raw * (1 - 3 / 1000))))"
  shows "(keyed (providers s) \<and> invoke_token e callIn \<noteq> None \<and> invoke_token e callOut \<noteq> None \<longrightarrow>
            Swap e s u tok (Num x) =
              Inr (Num (raw * (1 - 3 / 1000)),
                   putReserve
                     (s\<lparr>providers := fees_credited (Num (raw * (3 / 1000))) (providers s)\<rparr>)
                     reserve',
                   [callIn, callOut])) \<and>
         (\<forall>out s' calls. Swap e s u tok (Num x) = Inr (out, s', calls) \<longrightarrow>
            out = Num (raw * (1 - 3 / 1000)) \<and> reserve_wallet s' = Some reserve') \<and>
         (if tok = ''tokenA'' then (a + x) * (b - raw) = a * b
          else (a - raw) * (b + x) = a * b)"
proof (intro conjI allI impI)
  note rs = raw_swap_positive [OF assms(2,3,4,5)]
  have o: "jsub (Num raw) (jmul (Num raw) FEE_RATE) = Num (raw * (1 - 3 / 1000))"
    by (simp add: FEE_RATE_def algebra_simps)
  have f: "jmul (Num raw) FEE_RATE = Num (raw * (3 / 1000))"
    by (simp add: FEE_RATE_def)
  {
    assume h: "keyed (providers s) \<and> invoke_token e callIn \<noteq> None \<and>
               invoke_token e callOut \<noteq> None"
    have "Swap e s u tok (Num x) =
        Inr (Num (raw * (1 - 3 / 1000)),
             putReserve (s\<lparr>providers := fees_credited (Num (raw * (3 / 1000))) (providers s)\<rparr>)
               (fst (raw_swap \<lparr>tokenA = Num a, tokenB = Num b\<rparr> tok (Num x))),
             [fst (swap_transfers e u tok (Num x) (Num (raw * (1 - 3 / 1000)))),
              snd (swap_transfers e u tok (Num x) (Num (raw * (1 - 3 / 1000))))])"
    proof (rule Swap_run [OF assms(1)])
      show "keyed (providers s)" using h by simp
      show "Num raw = snd (raw_swap \<lparr>tokenA = Num a, tokenB = Num b\<rparr> tok (Num x))"
        by (simp add: rs)
      show "Num (raw * (3 / 1000)) = jmul (Num raw) FEE_RATE" by (simp add: f)
      show "Num (raw * (1 - 3 / 1000)) = jsub (Num raw) (Num (raw * (3 / 1000)))"
        by (simp add: algebra_simps)
      show "invoke_token e (fst (swap_transfers e u tok (Num x) (Num (raw * (1 - 3 / 1000)))))
            \<noteq> None" using h assms(7) by simp
      show "invoke_token e (snd (swap_transfers e u tok (Num x) (Num (raw * (1 - 3 / 1000)))))
            \<noteq> None" using h assms(8) by simp
    qed
    then show "Swap e s u tok (Num x) =
              Inr (Num (raw * (1 - 3 / 1000)),
                   putReserve
                     (s\<lparr>providers := fees_credited (Num (raw * (3 / 1000))) (providers s)\<rparr>)
                     reserve',
                   [callIn, callOut])"
      using assms(6,7,8) by (simp add: rs)
  }
  {
    fix out s' calls
    assume r: "Swap e s u tok (Num x) = Inr (out, s', calls)"
    from Swap_success [OF r] assms(1)
    show "out = Num (raw * (1 - 3 / 1000))" by (auto simp: rs o)
    from Swap_success [OF r] assms(1,6)
    show "reserve_wallet s' = Some reserve'" by (auto simp: rs)
  }
  show "if tok = ''tokenA'' then (a + x) * (b - raw) = a * b else (a - raw) * (b + x) = a * b"
    using assms(5) product_kept [OF assms(2,4,3)] product_kept [OF assms(3,4,2)]
    by (simp add: mult.commute)
qed

text \<open>
  Two runs on reserves of 1000 and 1000: 100 of token A in gives a raw output of 1000/11,
  of which 997/11 are returned; 250 of token B in gives 200, of which 997/5 are returned.
\<close>

lemma Swap_pool0_tokenA:
  "Swap env0 pool0 ''alice'' ''tokenA'' (Num 100) =
     Inr (Num (997 / 11), pool_swapped,
          [transfer ''alpha'' ''alice'' RESERVE_WALLET_KEY (Num 100),
           transfer ''beta'' RESERVE_WALLET_KEY ''alice'' (Num (997 / 11))])"
  by (simp add: Swap_def raw_swap_def Let_def FEE_RATE_def distributeFees_def
      GetAllLiquidityProviders_def swap_transfers_def env0_def pool0_def pool_swapped_def
      putReserve_def)

lemma Swap_pool0_tokenB:
  "Swap env0 pool0 ''alice'' ''tokenB'' (Num 250) =
     Inr (Num (997 / 5), pool_swapped_B,
          [transfer ''beta'' ''alice'' RESERVE_WALLET_KEY (Num 250),
           transfer ''alpha'' RESERVE_WALLET_KEY ''alice'' (Num (997 / 5))])"
  by (simp add: Swap_def raw_swap_def Let_def FEE_RATE_def distributeFees_def
      GetAllLiquidityProviders_def swap_transfers_def env0_def pool0_def pool_swapped_B_def
      putReserve_def)

lemma pool0_reserve: "reserve_wallet pool0 = Some \<lparr>tokenA = Num 1000, tokenB = Num 1000\<rparr>"
  by (simp add: pool0_def)

theorem Swap_constant_product_witness:
  "Swap env0 pool0 ''alice'' ''tokenA'' (Num 100) =
     Inr (Num (997 / 11), pool_swapped,
          [transfer ''alpha'' ''alice'' RESERVE_WALLET_KEY (Num 100),
           transfer ''beta'' RESERVE_WALLET_KEY ''alice'' (Num (997 / 11))]) \<and>
   reserve_wallet pool_swapped = Some \<lparr>tokenA = Num 1100, tokenB = Num (10000 / 11)\<rparr> \<and>
   raw_output 1000 1000 100 = 1000 / 11 \<and> (997 / 11 :: real) = 1000 / 11 * (1 - 3 / 1000) \<and>
   (1100 * (10000 / 11) :: real) = 1000 * 1000 \<and>
   Swap env0 pool0 ''alice'' ''tokenB'' (Num 250) =
     Inr (Num (997 / 5), pool_swapped_B,
          [transfer ''beta'' ''alice'' RESERVE_WALLET_KEY (Num 250),
           transfer ''alpha'' RESERVE_WALLET_KEY ''alice'' (Num (997 / 5))]) \<and>
   reserve_wallet pool_swapped_B = Some \<lparr>tokenA = Num 800, tokenB = Num 1250\<rparr> \<and>
   raw_output 1000 1000 250 = 200 \<and> (997 / 5 :: real) = 200 * (1 - 3 / 1000) \<and>
   (800 * 1250 :: real) = 1000 * 1000"
proof -
  have p: "(0::real) < 1000" "(0::real) < 100" "(0::real) < 250" by simp_all
  have k: "keyed (providers pool0)" by (simp add: keyed_def pool0_def)
  have a: "(1000 / 11 :: real) =
      (if ''tokenA'' = ''tokenA'' then raw_output 1000 1000 100 else raw_output 1000 1000 100)"
    by (simp add: raw_output_def)
  have b: "(200 :: real) =
      (if ''tokenB'' = ''tokenA'' then raw_output 1000 1000 250 else raw_output 1000 1000 250)"
    by (simp add: raw_output_def)
  note wa = Swap_constant_product [OF pool0_reserve p(1) p(1) p(2) a refl refl refl,
      of env0 "''alice''", THEN conjunct1]
  note wb = Swap_constant_product [OF pool0_reserve p(1) p(1) p(3) b refl refl refl,
      of env0 "''alice''", THEN conjunct1]
  have oa: "(1000 / 11 * (1 - 3 / 1000) :: real) = 997 / 11"
    and ob: "(200 * (1 - 3 / 1000) :: real) = 997 / 5"
    by simp_all
  have ca: "fst (swap_transfers env0 ''alice'' ''tokenA'' (Num 100) (Num (997 / 11))) =
      transfer ''alpha'' ''alice'' RESERVE_WALLET_KEY (Num 100)"
    "snd (swap_transfers env0 ''alice'' ''tokenA'' (Num 100) (Num (997 / 11))) =
      transfer ''beta'' RESERVE_WALLET_KEY ''alice'' (Num (997 / 11))"
    by (simp_all add: swap_transfers_def env0_def)
  have cb: "fst (swap_transfers env0 ''alice'' ''tokenB'' (Num 250) (Num (997 / 5))) =
      transfer ''beta'' ''alice'' RESERVE_WALLET_KEY (Num 250)"
    "snd (swap_transfers env0 ''alice'' ''tokenB'' (Num 250) (Num (997 / 5))) =
      transfer ''alpha'' RESERVE_WALLET_KEY ''alice'' (Num (997 / 5))"
    by (simp_all add: swap_transfers_def env0_def)
  have t: "\<And>c. invoke_token env0 c \<noteq> None" by (simp add: env0_def)
  have la: "putReserve
      (pool0\<lparr>providers := fees_credited (Num (1000 / 11 * (3 / 1000))) (providers pool0)\<rparr>)
      (if ''tokenA'' = ''tokenA''
       then \<lparr>tokenA = Num (1000 + 100), tokenB = Num (1000 - 1000 / 11)\<rparr>
       else \<lparr>tokenA = Num (1000 - 1000 / 11), tokenB = Num (1000 + 100)\<rparr>) = pool_swapped"
    by (simp add: fees_credited_def putReserve_def pool0_def pool_swapped_def)
  have lb: "putReserve
      (pool0\<lparr>providers := fees_credited (Num (200 * (3 / 1000))) (providers pool0)\<rparr>)
      (if ''tokenB'' = ''tokenA''
       then \<lparr>tokenA = Num (1000 + 250), tokenB = Num (1000 - 200)\<rparr>
       else \<lparr>tokenA = Num (1000 - 200), tokenB = Num (1000 + 250)\<rparr>) = pool_swapped_B"
    by (simp add: fees_credited_def putReserve_def pool0_def pool_swapped_B_def)
  have ra: "Swap env0 pool0 ''alice'' ''tokenA'' (Num 100) =
     Inr (Num (997 / 11), pool_swapped,
          [transfer ''alpha'' ''alice'' RESERVE_WALLET_KEY (Num 100),
           transfer ''beta'' RESERVE_WALLET_KEY ''alice'' (Num (997 / 11))])"
    using wa [unfolded oa la ca] k t by blast
  have rb: "Swap env0 pool0 ''alice'' ''tokenB'' (Num 250) =
     Inr (Num (997 / 5), pool_swapped_B,
          [transfer ''beta'' ''alice'' RESERVE_WALLET_KEY (Num 250),
           transfer ''alpha'' RESERVE_WALLET_KEY ''alice'' (Num (997 / 5))])"
    using wb [unfolded ob lb cb] k t by blast
  have sa: "reserve_wallet pool_swapped = Some \<lparr>tokenA = Num 1100, tokenB = Num (10000 / 11)\<rparr>"
    by (simp add: pool_swapped_def)
  have sb: "reserve_wallet pool_swapped_B = Some \<lparr>tokenA = Num 800, tokenB = Num 1250\<rparr>"
    by (simp add: pool_swapped_B_def)
  have n: "raw_output 1000 1000 100 = 1000 / 11" "(997 / 11 :: real) = 1000 / 11 * (1 - 3 / 1000)"
    "(1100 * (10000 / 11) :: real) = 1000 * 1000" "raw_output 1000 1000 250 = 200"
    "(997 / 5 :: real) = 200 * (1 - 3 / 1000)" "(800 * 1250 :: real) = 1000 * 1000"
    by (simp_all add: raw_output_def)
  show ?thesis
    using ra rb sa sb n by (intro conjI)
qed

text \<open>
  As the claim states it, the stored reserve would fall by the amount returned. In the
  first run the reserve of token B falls from 1000 to 10000/11, that is by 1000/11, and the
  amount returned is 997/11.
\<close>

theorem Swap_reserve_counterexample:
  "Swap env0 pool0 ''alice'' ''tokenA'' (Num 100) =
     Inr (Num (997 / 11), pool_swapped,
          [transfer ''alpha'' ''alice'' RESERVE_WALLET_KEY (Num 100),
           transfer ''beta'' RESERVE_WALLET_KEY ''alice'' (Num (997 / 11))]) \<and>
   reserve_wallet pool0 = Some \<lparr>tokenA = Num 1000, tokenB = Num 1000\<rparr> \<and>
   reserve_wallet pool_swapped = Some \<lparr>tokenA = Num 1100, tokenB = Num (10000 / 11)\<rparr> \<and>
   jsub (Num 1000) (Num (10000 / 11)) \<noteq> Num (997 / 11)"
  by (simp add: Swap_pool0_tokenA pool0_reserve) (simp add: pool_swapped_def)

text \<open>
  Claim C2, amended. The reserve of the output side is stored reduced by the raw output,
  which is the amount returned plus the fee; the fee is positive, so the stored reserve
  falls by more than the amount returned and does not retain the fee.
\<close>

theorem Swap_reserve_decrease:
  assumes "reserve_wallet s = Some \<lparr>tokenA = Num a, tokenB = Num b\<rparr>"
    and "0 < a" and "0 < b" and "0 < x"
    and "Swap e s u tok (Num x) = Inr (out, s', calls)"
  shows "if tok = ''tokenA''
         then reserve_wallet s' =
                Some \<lparr>tokenA = Num (a + x), tokenB = Num (b - raw_output a b x)\<rparr> \<and>
              out = Num (raw_output a b x - raw_output a b x * (3 / 1000)) \<and>
              0 < raw_output a b x * (3 / 1000)
         else reserve_wallet s' =
                Some \<lparr>tokenA = Num (a - raw_output b a x), tokenB = Num (b + x)\<rparr> \<and>
              out = Num (raw_output b a x - raw_output b a x * (3 / 1000)) \<and>
              0 < raw_output b a x * (3 / 1000)"
  using Swap_positive [OF assms] raw_output_positive [OF assms(2,3,4)]
    raw_output_positive [OF assms(3,2,4)]
  by (simp split: if_splits)

theorem Swap_reserve_decrease_witness:
  "reserve_wallet pool_swapped = Some \<lparr>tokenA = Num 1100, tokenB = Num (1000 - 1000 / 11)\<rparr> \<and>
   (997 / 11 :: real) = 1000 / 11 - 1000 / 11 * (3 / 1000) \<and>
   reserve_wallet pool_swapped_B = Some \<lparr>tokenA = Num (1000 - 200), tokenB = Num 1250\<rparr> \<and>
   (997 / 5 :: real) = 200 - 200 * (3 / 1000)"
proof -
  have p: "(0::real) < 1000" "(0::real) < 100" "(0::real) < 250" by simp_all
  show ?thesis
    using Swap_reserve_decrease [OF pool0_reserve p(1) p(1) p(2) Swap_pool0_tokenA]
      Swap_reserve_decrease [OF pool0_reserve p(1) p(1) p(3) Swap_pool0_tokenB]
    by (simp add: raw_output_def pool_swapped_def pool_swapped_B_def)
qed

subsection \<open>RemoveLiquidity and the earned fees\<close>

text \<open>
  A \<open>RemoveLiquidity\<close> of the pool that returns has made two transfers, of the
  proportional amounts less 0.3 per cent, and has left the ledger of the providers as it
  was.
\<close>

lemma RemoveLiquidity_success:
  assumes "RemoveLiquidity e s u lpAmount = Inr (ok, s', calls)"
  shows "\<exists>c. user_contribution s u = Some (Obj c) \<and> providers s' = providers s \<and>
    calls =
      [transfer (tokenAContract e) RESERVE_WALLET_KEY u
         (jsub (jmul (contributionA c) (jdiv lpAmount (lpTokens c)))
            (jmul (jmul (contributionA c) (jdiv lpAmount (lpTokens c))) (Num (3 / 1000)))),
       transfer (tokenBContract e) RESERVE_WALLET_KEY u
         (jsub (jmul (contributionB c) (jdiv lpAmount (lpTokens c)))
            (jmul (jmul (contributionB c) (jdiv lpAmount (lpTokens c))) (Num (3 / 1000))))]"
proof (cases "reserve_wallet s")
  case None
  with assms show ?thesis by (simp add: RemoveLiquidity_def)
next
  case R: (Some r)
  show ?thesis
  proof (cases "user_contribution s u")
    case None
    with assms R show ?thesis by (simp add: RemoveLiquidity_def)
  next
    case (Some parsed)
    with assms R show ?thesis
      by (cases parsed)
         (auto simp add: RemoveLiquidity_def Let_def putReserve_def putContribution_def
          split: if_splits)
  qed
qed

text \<open>
  Claim C7. The pool's \<open>RemoveLiquidity\<close> transfers the two proportional amounts less
  0.3 per cent and nothing else: with earned fees of 5 owed to alice, removing 100 of her
  1000 shares sends her 99.7 of each token and leaves her earned fees at 5.
\<close>

theorem RemoveLiquidity_keeps_earned_fees:
  "GetLiquidityProvider (providers pool_fees) ''alice'' = Inr alice_provider \<and>
   earnedFees alice_provider = Num 5 \<and>
   RemoveLiquidity env0 pool_fees ''alice'' (Num 100) =
     Inr (True, pool_removed,
          [transfer ''alpha'' RESERVE_WALLET_KEY ''alice'' (Num (997 / 10)),
           transfer ''beta'' RESERVE_WALLET_KEY ''alice'' (Num (997 / 10))]) \<and>
   GetLiquidityProvider (providers pool_removed) ''alice'' = Inr alice_provider"
  by (simp add: RemoveLiquidity_def GetLiquidityProvider_def Let_def env0_def pool0_def
      pool_fees_def pool_removed_def alice_provider_def alice0_def putReserve_def
      putContribution_def)

text \<open>The basket's \<open>RemoveLiquidity\<close> on the same ledger does pay the 5 and resets them.\<close>

lemma Basket_RemoveLiquidity_pays_fees:
  "Basket_RemoveLiquidity env0 pool_fees (Num 10) ''alice'' =
     Inr ((), pool_fees\<lparr>providers := [(''alice'', alice_provider\<lparr>earnedFees := Num 0\<rparr>)]\<rparr>,
          [Transfer ''alpha'' reserveWallet ''alice'' (Num 5)])"
  by (simp add: Basket_RemoveLiquidity_def GetLiquidityProvider_def UpdateEarnedFees_def
      jle_def jgt_def env0_def pool0_def pool_fees_def alice_provider_def fun_eq_iff)

subsection \<open>CheckAssetVolatility\<close>

lemma volatility_loop_fails:
  "price_lookup e oc t = None \<Longrightarrow> \<exists>err. volatility_loop e oc thr (t # ts) = Inl err"
  by (cases "invoke_oracle e oc ''GetCurrencyPrice'' t";
      cases "invoke_oracle e oc ''GetPreviousCurrencyPrice'' t")
     (auto simp: price_lookup_def split: if_splits)

lemma volatility_loop_step:
  "price_lookup e oc t = Some cp \<Longrightarrow>
   volatility_loop e oc thr (t # ts) =
     (if exceeds thr cp then Inr False else volatility_loop e oc thr ts)"
  by (cases "invoke_oracle e oc ''GetCurrencyPrice'' t";
      cases "invoke_oracle e oc ''GetPreviousCurrencyPrice'' t")
     (auto simp: price_lookup_def exceeds_def Let_def split: if_splits)

lemma exceeds_Num:
  "0 < p \<Longrightarrow> exceeds (Num thr) (Num c, Num p) = (thr < relative_change c p)"
  by (simp add: exceeds_def jgt_def relative_change_def abs_divide)

lemma volatility_loop_all:
  "\<forall>t \<in> set ts. price_lookup e oc t = Some (Num (cur t), Num (prev t)) \<and> 0 < prev t \<Longrightarrow>
   volatility_loop e oc (Num thr) ts =
     Inr (\<forall>t \<in> set ts. relative_change (cur t) (prev t) \<le> thr)"
proof (induction ts)
  case Nil
  then show ?case by simp
next
  case (Cons t ts)
  then have l: "price_lookup e oc t = Some (Num (cur t), Num (prev t))" and p: "0 < prev t"
    by simp_all
  from Cons have "volatility_loop e oc (Num thr) ts =
     Inr (\<forall>t \<in> set ts. relative_change (cur t) (prev t) \<le> thr)"
    by simp
  then show ?case
    by (auto simp add: volatility_loop_step [OF l] exceeds_Num [OF p]
        simp del: volatility_loop.simps)
qed

lemma volatility_loop_prefix:
  "\<forall>a \<in> set pre. \<exists>cp. price_lookup e oc a = Some cp \<and> \<not> exceeds thr cp \<Longrightarrow>
   volatility_loop e oc thr (pre @ ts) = volatility_loop e oc thr ts"
proof (induction pre)
  case Nil
  then show ?case by simp
next
  case (Cons a pre)
  then obtain cp where "price_lookup e oc a = Some cp" and "\<not> exceeds thr cp"
    by auto
  with Cons show ?case
    by (simp add: volatility_loop_step del: volatility_loop.simps)
qed

text \<open>
  Claim C9, amended. With both prices of every asset available and the previous ones
  positive, \<open>CheckAssetVolatility\<close> returns whether no relative change exceeds the
  threshold. The assets are scanned in basket order: at the first asset whose lookup
  fails, with no volatile asset before it, the call fails; at the first volatile asset
  it returns false, whatever the lookups of the assets behind it would give.
\<close>

theorem CheckAssetVolatility_scan:
  assumes "baskets s ''basket1'' = Some basket"
  shows "((\<forall>t \<in> set (Tokens basket).
             price_lookup e oc t = Some (Num (cur t), Num (prev t)) \<and> 0 < prev t) \<longrightarrow>
          CheckAssetVolatility e s (Num thr) oc =
            Inr (\<forall>t \<in> set (Tokens basket). relative_change (cur t) (prev t) \<le> thr)) \<and>
         (\<forall>pre t post.
            Tokens basket = pre @ t # post \<and>
            (\<forall>a \<in> set pre. \<exists>cp. price_lookup e oc a = Some cp \<and> \<not> exceeds (Num thr) cp) \<longrightarrow>
            (price_lookup e oc t = None \<longrightarrow>
               (\<exists>err. CheckAssetVolatility e s (Num thr) oc = Inl err)) \<and>
            (\<forall>cp. price_lookup e oc t = Some cp \<and> exceeds (Num thr) cp \<longrightarrow>
               CheckAssetVolatility e s (Num thr) oc = Inr False))"
proof (intro conjI allI impI)
  assume "\<forall>t \<in> set (Tokens basket).
            price_lookup e oc t = Some (Num (cur t), Num (prev t)) \<and> 0 < prev t"
  then show "CheckAssetVolatility e s (Num thr) oc =
            Inr (\<forall>t \<in> set (Tokens basket). relative_change (cur t) (prev t) \<le> thr)"
    using assms by (simp add: CheckAssetVolatility_def volatility_loop_all)
next
  fix pre t post
  assume h: "Tokens basket = pre @ t # post \<and>
    (\<forall>a \<in> set pre. \<exists>cp. price_lookup e oc a = Some cp \<and> \<not> exceeds (Num thr) cp)"
  assume "price_lookup e oc t = None"
  then show "\<exists>err. CheckAssetVolatility e s (Num thr) oc = Inl err"
    using assms h volatility_loop_fails [of e oc t "Num thr" post]
    by (simp add: CheckAssetVolatility_def volatility_loop_prefix del: volatility_loop.simps)
next
  fix pre t post cp
  assume h: "Tokens basket = pre @ t # post \<and>
    (\<forall>a \<in> set pre. \<exists>cp. price_lookup e oc a = Some cp \<and> \<not> exceeds (Num thr) cp)"
  assume "price_lookup e oc t = Some cp \<and> exceeds (Num thr) cp"
  then show "CheckAssetVolatility e s (Num thr) oc = Inr False"
    using assms h
    by (simp add: CheckAssetVolatility_def volatility_loop_prefix volatility_loop_step
        del: volatility_loop.simps)
qed

lemma pool_fees_basket: "baskets pool_fees ''basket1'' = Some basket0"
  by (simp add: pool_fees_def)

lemma basket0_Tokens: "Tokens basket0 = [''a'', ''b'']"
  by (simp add: basket0_def)

theorem CheckAssetVolatility_scan_witness:
  "CheckAssetVolatility env_calm pool_fees (Num (5 / 100)) ''OracleContract'' = Inr True \<and>
   price_lookup env_volatile ''OracleContract'' ''a'' = Some (Num 2, Num 1) \<and>
   CheckAssetVolatility env_volatile pool_fees (Num (5 / 100)) ''OracleContract'' = Inr False \<and>
   price_lookup env_volatile ''OracleContract'' ''b'' = None \<and>
   (\<exists>err. CheckAssetVolatility env_volatile pool_fees (Num 1) ''OracleContract'' = Inl err)"
proof -
  have calm: "\<forall>t \<in> set [''a'', ''b''].
      price_lookup env_calm ''OracleContract'' t = Some (Num (101 / 100), Num 1) \<and> (0::real) < 1"
    by (simp add: price_lookup_def env_calm_def env0_def)
  have a: "price_lookup env_volatile ''OracleContract'' ''a'' = Some (Num 2, Num 1)"
    by (simp add: price_lookup_def env_volatile_def env0_def)
  have b: "price_lookup env_volatile ''OracleContract'' ''b'' = None"
    by (simp add: price_lookup_def env_volatile_def env0_def)
  have x: "exceeds (Num (5 / 100)) (Num 2, Num 1)" "\<not> exceeds (Num 1) (Num 2, Num 1)"
    by (simp_all add: exceeds_def jgt_def)
  note w1 = CheckAssetVolatility_scan [OF pool_fees_basket, of env_calm "''OracleContract''"
      "\<lambda>t. 101 / 100" "\<lambda>t. 1" "5 / 100"]
  note w2 = CheckAssetVolatility_scan [OF pool_fees_basket, of env_volatile "''OracleContract''"
      "\<lambda>t. 0" "\<lambda>t. 0" "5 / 100", THEN conjunct2, rule_format, of "[]" "''a''" "[''b'']"]
  note w3 = CheckAssetVolatility_scan [OF pool_fees_basket, of env_volatile "''OracleContract''"
      "\<lambda>t. 0" "\<lambda>t. 0" "1", THEN conjunct2, rule_format, of "[''a'']" "''b''" "[]"]
  have "CheckAssetVolatility env_calm pool_fees (Num (5 / 100)) ''OracleContract'' = Inr True"
    using w1 calm by (simp add: relative_change_def basket0_Tokens)
  moreover have
    "CheckAssetVolatility env_volatile pool_fees (Num (5 / 100)) ''OracleContract'' = Inr False"
    using w2 a x by (simp add: basket0_Tokens)
  moreover have
    "\<exists>err. CheckAssetVolatility env_volatile pool_fees (Num 1) ''OracleContract'' = Inl err"
    using w3 a b x by (simp add: basket0_Tokens)
  ultimately show ?thesis using a b by simp
qed

text \<open>
  As the claim states it, a failing lookup would make the call fail. With the assets
  \<open>a\<close> and \<open>b\<close>, the price of \<open>a\<close> doubled and no price of \<open>b\<close> delivered, the call
  returns false.
\<close>

theorem CheckAssetVolatility_lookup_counterexample:
  "baskets pool_fees ''basket1'' = Some basket0 \<and> Tokens basket0 = [''a'', ''b''] \<and>
   invoke_oracle env_volatile ''OracleContract'' ''GetCurrencyPrice'' ''b'' = None \<and>
   invoke_oracle env_volatile ''OracleContract'' ''GetPreviousCurrencyPrice'' ''b'' = None \<and>
   CheckAssetVolatility env_volatile pool_fees (Num (5 / 100)) ''OracleContract'' = Inr False"
  by (simp add: CheckAssetVolatility_def pool_fees_def basket0_def env_volatile_def env0_def
      jgt_def)

text \<open>The placeholder returns true whatever the prices are.\<close>

lemma CheckAssetVolatility_placeholder_true:
  "CheckAssetVolatility_placeholder env_volatile pool_fees = Inr True"
  by (simp add: CheckAssetVolatility_placeholder_def)

subsection \<open>The invariant of SwapCBDCs\<close>

lemma upt2: "[0..<2] = [0, 1]"
  by (simp add: upt_rec)

lemma D_code_500: "D_code [500, 500] = 3000" "D_code [450, 500] = 25745 / 9"
  by (simp_all add: D_code_def upt2)

lemma D_spec_500: "D_spec [500, 500] = 2000" "D_spec [450, 500] = 17195 / 9"
  by (simp_all add: D_spec_def upt2)

text \<open>
  On reserves that are all non-zero the loops stay finite and compute \<open>D_code\<close>.
\<close>

lemma invariant_inner_Num:
  assumes "\<forall>r \<in> set rs. r \<noteq> 0" and "i < length rs"
  shows "\<forall>j \<in> set js. j < length rs \<Longrightarrow>
         invariant_inner (map Num rs) i js (Num d) =
           Num (d * (\<Prod>j\<leftarrow>js. if i \<noteq> j then 1 + rs ! i / rs ! j else 1))"
proof (induction js arbitrary: d)
  case Nil
  then show ?case by simp
next
  case (Cons j js)
  then have j: "j < length rs" and js: "\<forall>j \<in> set js. j < length rs" by simp_all
  from j have nz: "rs ! j \<noteq> 0" using assms(1) by simp
  have "invariant_inner (map Num rs) i (j # js) (Num d) =
        invariant_inner (map Num rs) i js
          (Num (d * (if i \<noteq> j then 1 + rs ! i / rs ! j else 1)))"
    using j nz assms(2) by simp
  also have "\<dots> = Num (d * (if i \<noteq> j then 1 + rs ! i / rs ! j else 1) *
                      (\<Prod>j\<leftarrow>js. if i \<noteq> j then 1 + rs ! i / rs ! j else 1))"
    by (rule Cons.IH [OF js])
  finally show ?case by (simp add: mult.assoc)
qed

lemma invariant_outer_Num:
  assumes "\<forall>r \<in> set rs. r \<noteq> 0"
  shows "\<forall>i \<in> set xs. i < length rs \<Longrightarrow>
         invariant_outer (map Num rs) xs (Num d) =
           Num (foldl (\<lambda>d i. (d + rs ! i) *
                  (\<Prod>j\<leftarrow>[0..<length rs]. if i \<noteq> j then 1 + rs ! i / rs ! j else 1)) d xs)"
proof (induction xs arbitrary: d)
  case Nil
  then show ?case by simp
next
  case (Cons i xs)
  then have i: "i < length rs" by simp
  have "invariant_inner (map Num rs) i [0..<length rs] (Num (d + rs ! i)) =
        Num ((d + rs ! i) * (\<Prod>j\<leftarrow>[0..<length rs]. if i \<noteq> j then 1 + rs ! i / rs ! j else 1))"
    using invariant_inner_Num [OF assms i, of "[0..<length rs]"] by simp
  with Cons i show ?case by simp
qed

lemma invariant_Num:
  assumes "\<forall>r \<in> set rs. r \<noteq> 0"
  shows "invariant (map Num rs) = Num (D_code rs)"
  using invariant_outer_Num [OF assms, of "[0..<length rs]" 0]
  by (simp add: invariant_def D_code_def)

lemma js_get_Num: "i < length rs \<Longrightarrow> js_get (map Num rs) i = Num (rs ! i)"
  by (simp add: js_get_def)

lemma js_set_Num: "i < length rs \<Longrightarrow> js_set (map Num rs) i (Num v) = map Num (rs[i := v])"
  by (simp add: js_set_def map_update)

lemma nonzero_update:
  assumes "\<forall>r \<in> set rs. 0 < (r::real)" and "v \<noteq> 0"
  shows "\<forall>r \<in> set (rs[i := v]). r \<noteq> 0"
proof
  fix r assume "r \<in> set (rs[i := v])"
  then have "r \<in> insert v (set rs)"
    using set_update_subset_insert [of rs i v] by blast
  with assms show "r \<noteq> 0" by auto
qed

text \<open>
  Claim C1, amended. On reserves that are all positive, with the amount different from
  the reserve it is taken from, a swap whose two transfers are accepted credits
  \<open>D_before - D_after\<close> and adds it to the reserve of the target asset, where \<open>D\<close> is
  the value the two loops compute: starting from 0, for each asset in turn the reserve
  is added to the running value and the sum is multiplied by the product over the
  other assets of \<open>1 + reserve_i / reserve_j\<close>.
\<close>

theorem SwapCBDCs_credits_invariant_difference:
  assumes "baskets s ''basket1'' = Some basket" and "Reserves basket = map Num rs"
    and "\<forall>r \<in> set rs. 0 < r"
    and "indexOf (Tokens basket) fromCBDC = Some i" and "indexOf (Tokens basket) toCBDC = Some j"
    and "i < length rs" and "j < length rs" and "a \<noteq> rs ! i"
    and "rs1 = rs[i := rs ! i - a]" and "toAmount = D_code rs - D_code rs1"
    and "invoke_token e (Transfer ''alpha'' u reserveWallet (Num a)) = Some 200"
    and "invoke_token e (Transfer ''alpha'' reserveWallet u (Num toAmount)) = Some 200"
  shows "SwapCBDCs e s (Num a) fromCBDC toCBDC u =
           Inr ((Num a, fromCBDC, Num toAmount, toCBDC),
                basket_after basket (rs1[j := rs1 ! j + toAmount]) s,
                [Transfer ''alpha'' u reserveWallet (Num a),
                 Transfer ''alpha'' reserveWallet u (Num toAmount)])"
proof -
  have nz: "\<forall>r \<in> set rs. r \<noteq> 0" using assms(3) by auto
  have nz1: "\<forall>r \<in> set rs1. r \<noteq> 0"
    unfolding assms(9) using assms(3,8) by (intro nonzero_update) simp_all
  have before: "invariant (Reserves basket) = Num (D_code rs)"
    using invariant_Num [OF nz] assms(2) by simp
  have R1: "js_set (Reserves basket) i (jsub (js_get (Reserves basket) i) (Num a)) = map Num rs1"
    using assms(2,6,9) by (simp add: js_get_Num js_set_Num)
  have after: "invariant (map Num rs1) = Num (D_code rs1)"
    by (rule invariant_Num [OF nz1])
  have len: "j < length rs1" using assms(7,9) by simp
  have R2: "js_set (map Num rs1) j (jadd (js_get (map Num rs1) j) (Num toAmount)) =
            map Num (rs1[j := rs1 ! j + toAmount])"
    using len by (simp add: js_get_Num js_set_Num)
  have ta: "D_code rs - D_code rs1 = toAmount"
    using assms(10) by simp
  show ?thesis
    using assms(1,4,5,11,12)
    by (simp add: SwapCBDCs_def Let_def before R1 after ta R2 basket_after_def)
qed

theorem SwapCBDCs_credits_invariant_difference_witness:
  "SwapCBDCs env0 pool_fees (Num 50) ''a'' ''b'' ''alice'' =
     Inr ((Num 50, ''a'', Num (1255 / 9), ''b''),
          basket_after basket0 [450, 500 + 1255 / 9] pool_fees,
          [Transfer ''alpha'' ''alice'' reserveWallet (Num 50),
           Transfer ''alpha'' reserveWallet ''alice'' (Num (1255 / 9))])"
proof -
  have b: "baskets pool_fees ''basket1'' = Some basket0"
    by (simp add: pool_fees_def)
  have r: "Reserves basket0 = map Num [500, 500]" by (simp add: basket0_def)
  have p: "\<forall>r \<in> set [500, 500 :: real]. 0 < r" by simp
  have i: "indexOf (Tokens basket0) ''a'' = Some 0" "indexOf (Tokens basket0) ''b'' = Some 1"
    by (simp_all add: basket0_def)
  have l: "0 < length [500, 500 :: real]" "1 < length [500, 500 :: real]" by simp_all
  have a: "(50::real) \<noteq> [500, 500] ! 0" by simp
  have r1: "[450, 500 :: real] = [500, 500][0 := [500, 500] ! 0 - 50]" by simp
  have t: "(1255 / 9 :: real) = D_code [500, 500] - D_code [450, 500]"
    by (simp add: D_code_500)
  have c: "invoke_token env0 (Transfer ''alpha'' ''alice'' reserveWallet (Num 50)) = Some 200"
    "invoke_token env0 (Transfer ''alpha'' reserveWallet ''alice'' (Num (1255 / 9))) = Some 200"
    by (simp_all add: env0_def)
  show ?thesis
    using SwapCBDCs_credits_invariant_difference [OF b r p i l a r1 t c] by simp
qed

text \<open>
  As the claim states it, \<open>D\<close> would be the sum of products \<open>D_spec\<close>. On the reserves
  500 and 500 the loops give 3000 and the sum of products 2000, and a swap of 50 credits
  1255/9 where the difference of the sums of products is 805/9.
\<close>

lemma invariant_500:
  "invariant [Num 500, Num 500] = Num 3000" "invariant [Num 450, Num 500] = Num (25745 / 9)"
  by (simp_all add: invariant_def upt2)

theorem SwapCBDCs_formula_counterexample:
  "baskets pool_fees ''basket1'' = Some basket0 \<and>
   Reserves basket0 = [Num 500, Num 500] \<and>
   SwapCBDCs env0 pool_fees (Num 50) ''a'' ''b'' ''alice'' =
     Inr ((Num 50, ''a'', Num (1255 / 9), ''b''),
          basket_after basket0 [450, 500 + 1255 / 9] pool_fees,
          [Transfer ''alpha'' ''alice'' reserveWallet (Num 50),
           Transfer ''alpha'' reserveWallet ''alice'' (Num (1255 / 9))]) \<and>
   invariant [Num 500, Num 500] = Num 3000 \<and> D_spec [500, 500] = 2000 \<and>
   D_spec [500, 500] - D_spec [450, 500] = 805 / 9"
proof -
  have "SwapCBDCs env0 pool_fees (Num 50) ''a'' ''b'' ''alice'' =
     Inr ((Num 50, ''a'', Num (1255 / 9), ''b''),
          basket_after basket0 [450, 500 + 1255 / 9] pool_fees,
          [Transfer ''alpha'' ''alice'' reserveWallet (Num 50),
           Transfer ''alpha'' reserveWallet ''alice'' (Num (1255 / 9))])"
    by (simp add: SwapCBDCs_def Let_def pool_fees_def basket0_def js_get_def js_set_def
        invariant_500 env0_def basket_after_def)
  then show ?thesis
    by (simp add: invariant_500 D_spec_500) (simp add: pool_fees_def basket0_def)
qed

subsection \<open>Runs that return\<close>

text \<open>
  The transactions of the pool return on every ledger that holds what they read, when
  the other chaincodes accept the calls: the properties above that start from a
  returned value are about these runs.
\<close>

lemma Swap_returns:
  assumes "reserve_wallet s = Some r" and "keyed (providers s)"
    and "\<forall>c. invoke_token e c \<noteq> None"
  shows "\<exists>out s' calls. Swap e s u tok amountIn = Inr (out, s', calls)"
  using assms by (simp add: Swap_def Let_def distributeFees_keyed)

lemma AddLiquidity_returns:
  assumes "reserve_wallet s = Some r" and "user_contribution s u = Some parsed"
    and "getPriceFromOracle e ''tokenA'' = Inr priceA"
    and "getPriceFromOracle e ''tokenB'' = Inr priceB"
    and "\<not> jgt (jabs (jsub (jmul amountA priceA) (jmul amountB priceB))) (Num (1 / 100))"
    and "\<forall>c. invoke_token e c \<noteq> None"
  shows "\<exists>s' calls. AddLiquidity e s u amountA amountB = Inr (True, s', calls)"
  using assms by (cases parsed) (simp_all add: AddLiquidity_def Let_def)

lemma RemoveLiquidity_returns:
  assumes "reserve_wallet s = Some r" and "user_contribution s u = Some (Obj c)"
    and "\<not> jlt (lpTokens c) lpAmount" and "\<forall>c. invoke_token e c \<noteq> None"
  shows "\<exists>s' calls. RemoveLiquidity e s u lpAmount = Inr (True, s', calls)"
  using assms by (simp add: RemoveLiquidity_def Let_def)

text \<open>
  No transaction of the pool stores a falsy value under a contribution key: on a ledger
  the pool alone has written, the branch of \<open>AddLiquidity\<close> for \<open>!userContribution\<close> is
  never taken.
\<close>

lemma putContribution_no_falsy: "no_falsy s \<Longrightarrow> no_falsy (putContribution (putReserve s r) u c)"
  by (simp add: no_falsy_def putContribution_def putReserve_def)

lemma AddLiquidity_no_falsy:
  assumes "no_falsy s" and "AddLiquidity e s u amountA amountB = Inr (ok, s', calls)"
  shows "no_falsy s'"
proof -
  from AddLiquidity_success [OF assms(2)] obtain r parsed
    where r: "reserve_wallet s = Some r" and p: "user_contribution s u = Some parsed"
    by blast
  from assms(1) p obtain c where c: "parsed = Obj c"
    by (cases parsed) (auto simp: no_falsy_def)
  show ?thesis
  proof (cases "getPriceFromOracle e ''tokenA''")
    case (Inl a)
    with assms(2) show ?thesis by (simp add: AddLiquidity_def)
  next
    case A: (Inr priceA)
    show ?thesis
    proof (cases "getPriceFromOracle e ''tokenB''")
      case (Inl a)
      with assms(2) A show ?thesis by (simp add: AddLiquidity_def)
    next
      case (Inr priceB)
      with assms A r p c show ?thesis
        by (auto simp add: AddLiquidity_def Let_def putContribution_no_falsy split: if_splits)
    qed
  qed
qed

lemma RemoveLiquidity_no_falsy:
  assumes "no_falsy s" and "RemoveLiquidity e s u lpAmount = Inr (ok, s', calls)"
  shows "no_falsy s'"
proof (cases "reserve_wallet s")
  case None
  with assms(2) show ?thesis by (simp add: RemoveLiquidity_def)
next
  case R: (Some r)
  show ?thesis
  proof (cases "user_contribution s u")
    case None
    with assms(2) R show ?thesis by (simp add: RemoveLiquidity_def)
  next
    case (Some parsed)
    with assms R show ?thesis
      by (cases parsed)
         (auto simp add: RemoveLiquidity_def Let_def putContribution_no_falsy split: if_splits)
  qed
qed

lemma Swap_Init_no_falsy:
  "no_falsy s \<Longrightarrow> Swap e s u tok amountIn = Inr (out, s', calls) \<Longrightarrow> no_falsy s'"
  "no_falsy s \<Longrightarrow> Init s = Inr (x, s') \<Longrightarrow> no_falsy s'"
proof -
  assume n: "no_falsy s" and sw: "Swap e s u tok amountIn = Inr (out, s', calls)"
  show "no_falsy s'"
  proof (cases "reserve_wallet s")
    case None
    with sw show ?thesis by (simp add: Swap_def)
  next
    case (Some r)
    show ?thesis
    proof (cases "distributeFees (providers s) (jmul (snd (raw_swap r tok amountIn)) FEE_RATE)")
      case (Inl a)
      with sw Some show ?thesis by (simp add: Swap_def Let_def)
    next
      case (Inr L')
      with sw Some n show ?thesis
        by (auto simp add: Swap_def Let_def putReserve_def no_falsy_def split: if_splits)
    qed
  qed
next
  assume "no_falsy s" and "Init s = Inr (x, s')"
  then show "no_falsy s'"
    by (auto simp add: Init_def putReserve_def no_falsy_def)
qed

end
